theory Spec2Isabelle
  imports Main "HOL-Library.List_Lexorder" "HOL-Library.Char_ord"
begin

section \<open>Values, thrown errors and string helpers\<close>

text \<open>
  Stored values are JSON values.  \<open>JNull\<close> is JavaScript's \<open>null\<close>, which is also what a
  store returns for a missing key.  Numbers are integers; floating point is outside the model.
\<close>

datatype json =
    JNull
  | JBool bool
  | JNum int
  | JStr string
  | JArr "json list"
  | JObj "(string \<times> json) list"

text \<open>
  A thrown value is either an \<open>Error\<close> instance with its message, or some other thrown
  object (such as the plain error object of a database reply), for which
  \<open>error instanceof Error\<close> is false.
\<close>

datatype jserror = JsError string | NonError string

fun instanceofError :: "jserror \<Rightarrow> bool" where
  "instanceofError (JsError m) = True"
| "instanceofError (NonError m) = False"

fun errorMessage :: "jserror \<Rightarrow> string" where
  "errorMessage (JsError m) = m"
| "errorMessage (NonError m) = m"

text \<open>\<open>s.startsWith(p)\<close> and \<open>s.includes(p)\<close>.\<close>

definition startsWith :: "'a list \<Rightarrow> 'a list \<Rightarrow> bool" where
  "startsWith s p = (take (length p) s = p)"

fun includesStr :: "'a list \<Rightarrow> 'a list \<Rightarrow> bool" where
  "includesStr [] p = (p = [])"
| "includesStr (c # s) p = (startsWith (c # s) p \<or> includesStr s p)"

text \<open>\<open>s.toLowerCase()\<close> on the 8-bit characters of the model (ASCII and Latin-1 capitals).\<close>

definition lowerChar :: "char \<Rightarrow> char" where
  "lowerChar c =
     (let n = (of_char c :: nat)
      in if (65 \<le> n \<and> n \<le> 90) \<or> (192 \<le> n \<and> n \<le> 222 \<and> n \<noteq> 215)
         then char_of (n + 32) else c)"

definition toLowerCase :: "string \<Rightarrow> string" where
  "toLowerCase s = map lowerChar s"

text \<open>
  \<open>Map.prototype.set\<close> on a map kept as a list in insertion order: an existing key keeps
  its position, a new key goes to the end.
\<close>

fun map_set :: "'k \<Rightarrow> 'v \<Rightarrow> ('k \<times> 'v) list \<Rightarrow> ('k \<times> 'v) list" where
  "map_set k v [] = [(k, v)]"
| "map_set k v (p # ps) = (if fst p = k then (k, v) # ps else p # map_set k v ps)"

definition map_delete :: "'k \<Rightarrow> ('k \<times> 'v) list \<Rightarrow> ('k \<times> 'v) list" where
  "map_delete k ps = filter (\<lambda>p. fst p \<noteq> k) ps"

section \<open>Error Recovery Engine (errorHandlingService.ts)\<close>

datatype ErrorSeverity = Low | Medium | High | Critical

datatype ErrorCategory =
    Network | Authentication | Encryption | Storage | Validation
  | Sync | Compliance | UserAction | System

type_synonym errctx = "(string \<times> json) list"

text \<open>
  \<open>ErrorInfo\<close>.  The fields \<open>stackTrace\<close>, \<open>userAgent\<close> and \<open>url\<close> only carry text of
  the browser environment and are left out; \<open>timestamp\<close> is the clock reading in
  milliseconds that the source stores as an ISO string.
\<close>

record ErrorInfo =
  errorId :: string
  message :: string
  category :: ErrorCategory
  severity :: ErrorSeverity
  timestamp :: int
  errorUserId :: json
  errorContext :: "errctx option"
  resolved :: bool
  retryCount :: nat
  maxRetries :: nat

text \<open>
  \<open>FallbackStrategy\<close>.  A handler is modelled by its outcome on the error message and the
  caller's context: \<open>Inr\<close> the value it resolves with, \<open>Inl\<close> the error it throws.
\<close>

record FallbackStrategy =
  name :: string
  strategyCategory :: ErrorCategory
  handler :: "string \<Rightarrow> errctx option \<Rightarrow> jserror + json"
  canRetry :: bool
  strategyMaxRetries :: nat
  priority :: int

record RecoveryAction =
  actionName :: string
  description :: string
  isDestructive :: bool
  requiresConfirmation :: bool

datatype eh_event =
    TriedStrategy string
  | NotifiedListeners string
  | SentToRemoteLogging string

text \<open>
  The service object: its maps are kept in insertion order; \<open>savedLog\<close> is the
  \<open>error_log\<close> entry written through the storage service; \<open>events\<close> records, in order,
  the handlers invoked and the notifications sent.
\<close>

record ErrorHandlingService =
  errorLog :: "(string \<times> ErrorInfo) list"
  fallbackStrategies :: "FallbackStrategy list"
  ehOnline :: bool
  maxLogSize :: nat
  retryQueue :: "(string \<times> ErrorInfo \<times> FallbackStrategy) list"
  savedLog :: "(string \<times> ErrorInfo) list"
  events :: "eh_event list"

text \<open>The value \<open>handleError\<close> resolves with: a strategy's value or one of the escalation objects.\<close>

datatype recovery_result =
    StrategyResult json
  | CriticalResult string "RecoveryAction list" string
      \<comment> \<open>\<open>{error: true, critical: true, message, recoveryActions, errorId}\<close>\<close>
  | HighResult string
      \<comment> \<open>\<open>{error: true, message, canRetry: true}\<close>\<close>
  | MediumResult string
      \<comment> \<open>\<open>{error: true, message, silent: true}\<close>\<close>
  | LowResult
      \<comment> \<open>\<open>{error: true, silent: true}\<close>\<close>

definition sensitiveKey :: "string \<Rightarrow> bool" where
  "sensitiveKey k =
     (includesStr (toLowerCase k) ''password'' \<or> includesStr (toLowerCase k) ''token'' \<or>
      includesStr (toLowerCase k) ''secret'' \<or> includesStr (toLowerCase k) ''key'')"

fun sanitizeEntry :: "string \<times> json \<Rightarrow> string \<times> json" where
  "sanitizeEntry (k, v) =
     (if sensitiveKey k then (k, JStr ''[REDACTED]'')
      else case v of
             JStr s \<Rightarrow> if length s > 1000 then (k, JStr (take 1000 s @ ''...[TRUNCATED]''))
                       else (k, v)
           | _ \<Rightarrow> (k, v))"

definition sanitizeContext :: "errctx option \<Rightarrow> errctx option" where
  "sanitizeContext ctx = (case ctx of None \<Rightarrow> None | Some c \<Rightarrow> Some (map sanitizeEntry c))"

text \<open>\<open>categoryRetries[category] || 1\<close>: the entry 0 of \<open>user_action\<close> is falsy and yields 1.\<close>

fun categoryRetries :: "ErrorCategory \<Rightarrow> nat" where
  "categoryRetries Network = 3"
| "categoryRetries Authentication = 2"
| "categoryRetries Encryption = 1"
| "categoryRetries Storage = 2"
| "categoryRetries Validation = 1"
| "categoryRetries Sync = 3"
| "categoryRetries Compliance = 1"
| "categoryRetries UserAction = 0"
| "categoryRetries System = 2"

definition getMaxRetriesForCategory :: "ErrorCategory \<Rightarrow> nat" where
  "getMaxRetriesForCategory c = (if categoryRetries c = 0 then 1 else categoryRetries c)"

definition contextUserId :: "errctx option \<Rightarrow> json" where
  "contextUserId ctx =
     (case ctx of None \<Rightarrow> JNull
      | Some c \<Rightarrow> (case map_of c ''userId'' of None \<Rightarrow> JNull | Some u \<Rightarrow> u))"

text \<open>
  \<open>createErrorInfo\<close>; the fresh identifier (built from the clock and a random number in the
  source) and the clock reading are inputs.
\<close>

definition createErrorInfo ::
  "string \<Rightarrow> ErrorCategory \<Rightarrow> ErrorSeverity \<Rightarrow> errctx option \<Rightarrow> string \<Rightarrow> int \<Rightarrow> ErrorInfo"
where
  "createErrorInfo error cat sev ctx newId now =
     \<lparr> errorId = newId, message = error, category = cat, severity = sev, timestamp = now,
       errorUserId = contextUserId ctx, errorContext = sanitizeContext ctx,
       resolved = False, retryCount = 0, maxRetries = getMaxRetriesForCategory cat \<rparr>"

text \<open>\<open>saveErrorLog\<close>: the last 100 entries go to the storage service.\<close>

definition saveErrorLog :: "ErrorHandlingService \<Rightarrow> ErrorHandlingService" where
  "saveErrorLog st =
     st\<lparr>savedLog := drop (length (errorLog st) - 100) (errorLog st)\<rparr>"

definition logError :: "ErrorInfo \<Rightarrow> ErrorHandlingService \<Rightarrow> ErrorHandlingService" where
  "logError info st =
     (let log1 = map_set (errorId info) info (errorLog st);
          log2 = (if length log1 > maxLogSize st
                  then (let oldestEntries =
                              take (length log1 - maxLogSize st)
                                (sort_key (\<lambda>p. timestamp (snd p)) log1)
                        in filter (\<lambda>p. fst p \<notin> set (map fst oldestEntries)) log1)
                  else log1);
          st1 = saveErrorLog (st\<lparr>errorLog := log2\<rparr>)
      in if severity info = Critical \<and> ehOnline st1
         then st1\<lparr>events := events st1 @ [SentToRemoteLogging (errorId info)]\<rparr>
         else st1)"

definition notifyListeners :: "ErrorInfo \<Rightarrow> ErrorHandlingService \<Rightarrow> ErrorHandlingService" where
  "notifyListeners info st = st\<lparr>events := events st @ [NotifiedListeners (errorId info)]\<rparr>"

text \<open>
  The error object is shared by reference between the log, the retry queue and the running
  call.  A mutation of the object is therefore written through to the entries kept under
  its identifier.
\<close>

definition writeThrough :: "ErrorInfo \<Rightarrow> ErrorHandlingService \<Rightarrow> ErrorHandlingService" where
  "writeThrough info st =
     st\<lparr>errorLog := map (\<lambda>p. if fst p = errorId info then (fst p, info) else p) (errorLog st),
        retryQueue := map (\<lambda>p. if fst p = errorId info then (fst p, info, snd (snd p)) else p)
                        (retryQueue st)\<rparr>"

definition updateErrorInfo :: "ErrorInfo \<Rightarrow> ErrorHandlingService \<Rightarrow> ErrorHandlingService" where
  "updateErrorInfo info st =
     saveErrorLog (st\<lparr>errorLog := map_set (errorId info) info (errorLog st)\<rparr>)"

definition queueForRetry ::
  "ErrorInfo \<Rightarrow> FallbackStrategy \<Rightarrow> ErrorHandlingService \<Rightarrow> ErrorInfo \<times> ErrorHandlingService"
where
  "queueForRetry info strategy st =
     (let info' = info\<lparr>retryCount := retryCount info + 1\<rparr>;
          st1 = writeThrough info' st
      in (info', st1\<lparr>retryQueue := map_set (errorId info') (info', strategy) (retryQueue st1)\<rparr>))"

text \<open>The loop of \<open>handleError\<close> over the applicable strategies.\<close>

fun tryStrategies ::
  "FallbackStrategy list \<Rightarrow> string \<Rightarrow> errctx option \<Rightarrow> ErrorInfo \<Rightarrow> ErrorHandlingService
     \<Rightarrow> json option \<times> ErrorInfo \<times> ErrorHandlingService"
where
  "tryStrategies [] error ctx info st = (None, info, st)"
| "tryStrategies (strategy # rest) error ctx info st =
     (let st1 = st\<lparr>events := events st @ [TriedStrategy (name strategy)]\<rparr>
      in case handler strategy error ctx of
           Inr result \<Rightarrow>
             (let info' = info\<lparr>resolved := True\<rparr>
              in (Some result, info', updateErrorInfo info' (writeThrough info' st1)))
         | Inl strategyError \<Rightarrow>
             (if canRetry strategy \<and> retryCount info < strategyMaxRetries strategy
              then (case queueForRetry info strategy st1 of
                      (info', st2) \<Rightarrow> tryStrategies rest error ctx info' st2)
              else tryStrategies rest error ctx info st1))"

fun generateRecoveryActions :: "ErrorCategory \<Rightarrow> RecoveryAction list" where
  "generateRecoveryActions cat =
     (case cat of
        Encryption \<Rightarrow>
          [\<lparr>actionName = ''reset_encryption'',
            description = ''Reset encryption keys (will require re-login)'',
            isDestructive = True, requiresConfirmation = True\<rparr>]
      | Storage \<Rightarrow>
          [\<lparr>actionName = ''clear_cache'', description = ''Clear application cache'',
            isDestructive = False, requiresConfirmation = False\<rparr>]
      | Sync \<Rightarrow>
          [\<lparr>actionName = ''force_resync'',
            description = ''Force complete data resynchronization'',
            isDestructive = False, requiresConfirmation = True\<rparr>]
      | Network \<Rightarrow>
          [\<lparr>actionName = ''retry_connection'', description = ''Retry network connection'',
            isDestructive = False, requiresConfirmation = False\<rparr>]
      | _ \<Rightarrow> [])
     @ [\<lparr>actionName = ''restart_app'', description = ''Restart the application'',
         isDestructive = False, requiresConfirmation = True\<rparr>]"

definition handleCriticalError :: "ErrorInfo \<Rightarrow> recovery_result" where
  "handleCriticalError info =
     CriticalResult (message info) (generateRecoveryActions (category info)) (errorId info)"

definition escalateError :: "ErrorInfo \<Rightarrow> recovery_result" where
  "escalateError info =
     (case severity info of
        Critical \<Rightarrow> handleCriticalError info
      | High \<Rightarrow> HighResult (message info)
      | Medium \<Rightarrow> MediumResult (message info)
      | Low \<Rightarrow> LowResult)"

definition applicableStrategies :: "ErrorCategory \<Rightarrow> ErrorHandlingService \<Rightarrow> FallbackStrategy list" where
  "applicableStrategies cat st =
     sort_key priority (filter (\<lambda>strategy. strategyCategory strategy = cat) (fallbackStrategies st))"

definition handleError ::
  "string \<Rightarrow> ErrorCategory \<Rightarrow> ErrorSeverity \<Rightarrow> errctx option \<Rightarrow> string \<Rightarrow> int
     \<Rightarrow> ErrorHandlingService \<Rightarrow> recovery_result \<times> ErrorHandlingService"
where
  "handleError error cat sev ctx newId now st =
     (let errorInfo = createErrorInfo error cat sev ctx newId now;
          st1 = logError errorInfo st;
          st2 = notifyListeners errorInfo st1
      in case tryStrategies (applicableStrategies cat st2) error ctx errorInfo st2 of
           (Some result, info', st3) \<Rightarrow> (StrategyResult result, st3)
         | (None, info', st3) \<Rightarrow> (escalateError info', st3))"

text \<open>The handlers invoked, in order, as recorded in the event list.\<close>

fun triedNames :: "eh_event list \<Rightarrow> string list" where
  "triedNames [] = []"
| "triedNames (TriedStrategy n # es) = n # triedNames es"
| "triedNames (e # es) = triedNames es"

section \<open>Platform functions\<close>

text \<open>\<open>JSON.stringify\<close> on the values of the model.\<close>

definition digitChar :: "nat \<Rightarrow> char" where
  "digitChar d = char_of (48 + d)"

function showNat :: "nat \<Rightarrow> string" where
  "showNat n = (if n < 10 then [digitChar n] else showNat (n div 10) @ [digitChar (n mod 10)])"
  by pat_completeness auto
termination
  by (relation "measure id") auto

declare showNat.simps [simp del]

definition showInt :: "int \<Rightarrow> string" where
  "showInt i = (if i < 0 then CHR ''-'' # showNat (nat (- i)) else showNat (nat i))"

definition hexDigit :: "nat \<Rightarrow> char" where
  "hexDigit d = (if d < 10 then char_of (48 + d) else char_of (87 + d))"

definition escapeChar :: "char \<Rightarrow> string" where
  "escapeChar c =
     (let n = (of_char c :: nat)
      in if n = 34 then [CHR 0x5C, CHR 0x22]
         else if n = 92 then [CHR 0x5C, CHR 0x5C]
         else if n = 8 then [CHR 0x5C, CHR ''b'']
         else if n = 12 then [CHR 0x5C, CHR ''f'']
         else if n = 10 then [CHR 0x5C, CHR ''n'']
         else if n = 13 then [CHR 0x5C, CHR ''r'']
         else if n = 9 then [CHR 0x5C, CHR ''t'']
         else if n < 32 then [CHR 0x5C, CHR ''u'', CHR ''0'', CHR ''0'', hexDigit (n div 16), hexDigit (n mod 16)]
         else [c])"

definition quoteString :: "string \<Rightarrow> string" where
  "quoteString s = CHR 0x22 # concat (map escapeChar s) @ [CHR 0x22]"

fun joinComma :: "string list \<Rightarrow> string" where
  "joinComma [] = []"
| "joinComma [x] = x"
| "joinComma (x # y # ys) = x @ CHR '','' # joinComma (y # ys)"

fun JSON_stringify :: "json \<Rightarrow> string" where
  "JSON_stringify JNull = ''null''"
| "JSON_stringify (JBool b) = (if b then ''true'' else ''false'')"
| "JSON_stringify (JNum n) = showInt n"
| "JSON_stringify (JStr s) = quoteString s"
| "JSON_stringify (JArr xs) = CHR ''['' # joinComma (map JSON_stringify xs) @ '']''"
| "JSON_stringify (JObj kvs) =
     CHR ''{'' # joinComma (map (\<lambda>kv. quoteString (fst kv) @ CHR '':'' # JSON_stringify (snd kv)) kvs) @ ''}''"

text \<open>
  \<open>userId.trim() === ''\<close>: the string consists of white space only
  (the white-space characters among the 8-bit characters).
\<close>

definition isWhitespace :: "char \<Rightarrow> bool" where
  "isWhitespace c = ((of_char c :: nat) \<in> {9, 10, 11, 12, 13, 32, 160})"

definition trim :: "string \<Rightarrow> string" where
  "trim s = rev (dropWhile isWhitespace (rev (dropWhile isWhitespace s)))"

text \<open>\<open>s.replace(p, r)\<close> with a string pattern: the first occurrence only.\<close>

fun replaceFirst :: "string \<Rightarrow> string \<Rightarrow> string \<Rightarrow> string" where
  "replaceFirst [] p r = (if p = [] then r else [])"
| "replaceFirst (c # s) p r =
     (if startsWith (c # s) p then r @ drop (length p) (c # s) else c # replaceFirst s p r)"

subsection \<open>Values as the language sees them\<close>

text \<open>
  Truthiness, \<open>typeof\<close>, the own enumerable properties (what \<open>Object.entries\<close>, the spread
  \<open>{...x}\<close> and \<open>Object.keys\<close> see) and a property read (\<open>None\<close> is \<open>undefined\<close>) on a value
  other than \<open>null\<close>.  An object is the list of its properties in creation order; keys
  that look like array indices, which the language lists first, are not treated apart.
\<close>

fun truthy :: "json \<Rightarrow> bool" where
  "truthy JNull = False"
| "truthy (JBool b) = b"
| "truthy (JNum n) = (n \<noteq> 0)"
| "truthy (JStr s) = (s \<noteq> [])"
| "truthy (JArr xs) = True"
| "truthy (JObj kvs) = True"

fun typeofText :: "json \<Rightarrow> string" where
  "typeofText (JBool b) = ''boolean''"
| "typeofText (JNum n) = ''number''"
| "typeofText (JStr s) = ''string''"
| "typeofText v = ''object''"

definition indexNames :: "nat \<Rightarrow> string list" where
  "indexNames n = map showNat [0..<n]"

fun ownEntries :: "json \<Rightarrow> (string \<times> json) list" where
  "ownEntries (JObj kvs) = kvs"
| "ownEntries (JArr xs) = zip (indexNames (length xs)) xs"
| "ownEntries (JStr s) = zip (indexNames (length s)) (map (\<lambda>c. JStr [c]) s)"
| "ownEntries v = []"

fun isArray :: "json \<Rightarrow> bool" where
  "isArray (JArr xs) = True"
| "isArray v = False"

fun getProp :: "string \<Rightarrow> json \<Rightarrow> json option" where
  "getProp k (JObj kvs) = map_of kvs k"
| "getProp k (JArr xs) =
     (if k = ''length'' then Some (JNum (int (length xs))) else map_of (ownEntries (JArr xs)) k)"
| "getProp k (JStr s) =
     (if k = ''length'' then Some (JNum (int (length s))) else map_of (ownEntries (JStr s)) k)"
| "getProp k v = None"

text \<open>\<open>typeof x.k === 'string' ? x.k : d\<close>, and the same test for a boolean.\<close>

definition stringOr :: "string \<Rightarrow> string \<Rightarrow> json \<Rightarrow> json" where
  "stringOr k d x = (case getProp k x of Some (JStr s) \<Rightarrow> JStr s | _ \<Rightarrow> JStr d)"

definition boolOr :: "string \<Rightarrow> bool \<Rightarrow> json \<Rightarrow> json" where
  "boolOr k d x = (case getProp k x of Some (JBool b) \<Rightarrow> JBool b | _ \<Rightarrow> JBool d)"

text \<open>
  The object literal \<open>{...x, k1: v1, ...}\<close>: a key that \<open>x\<close> already has keeps its place and
  takes the new value, a new key is added at the end.  \<open>withProps\<close> is also the effect of
  the assignments \<open>o[k1] = v1; ...\<close> on an object.
\<close>

definition withProps :: "(string \<times> json) list \<Rightarrow> (string \<times> json) list \<Rightarrow> (string \<times> json) list" where
  "withProps base overrides = fold (\<lambda>kv acc. map_set (fst kv) (snd kv) acc) overrides base"

text \<open>A property of an object literal whose value may be \<open>undefined\<close>: it is then left out of the request.\<close>

definition optionalProp :: "string \<Rightarrow> json option \<Rightarrow> (string \<times> json) list" where
  "optionalProp k v = (case v of None \<Rightarrow> [] | Some x \<Rightarrow> [(k, x)])"

text \<open>The key under which an assignment \<open>o[v] = ...\<close> stores: the string itself, or the text of a primitive.\<close>

definition propertyKey :: "json \<Rightarrow> string" where
  "propertyKey v = (case v of JStr s \<Rightarrow> s | _ \<Rightarrow> JSON_stringify v)"

text \<open>\<open>Promise.all\<close> over a list of results: all the values, or the first failure.\<close>

fun collect :: "('e + 'a) list \<Rightarrow> 'e + 'a list" where
  "collect [] = Inr []"
| "collect (x # xs) =
     (case x of
        Inl e \<Rightarrow> Inl e
      | Inr v \<Rightarrow> (case collect xs of Inl e \<Rightarrow> Inl e | Inr vs \<Rightarrow> Inr (v # vs)))"

text \<open>
  An \<open>async\<close> call that is not awaited yields the promise object.  A promise has no
  properties of its own: it is truthy, has no \<open>filter\<close> or \<open>length\<close>, and a request or a
  store keeps it as the empty object.
\<close>

definition unawaitedPromise :: json where
  "unawaitedPromise = JObj []"

text \<open>The messages of the type errors that the engine raises (in the wording of V8).\<close>

definition nullReadError :: "string \<Rightarrow> jserror" where
  "nullReadError p =
     JsError (''Cannot read properties of null (reading '' @ [CHR 0x27] @ p @ [CHR 0x27] @ '')'')"

definition notAFunctionError :: "string \<Rightarrow> jserror" where
  "notAFunctionError f = JsError (f @ '' is not a function'')"

text \<open>
  \<open>new Date(s).getTime()\<close> is a function of the platform: the milliseconds since the epoch
  that the text denotes, or nothing (\<open>NaN\<close>) for text that is no date.  \<open>JSON.parse\<close> is
  the platform's parser.
\<close>

record platform =
  dateMs :: "string \<Rightarrow> int option"
  JSON_parse :: "string \<Rightarrow> jserror + json"

section \<open>Codec coordination (encryptionService.ts)\<close>

subsection \<open>\<open>btoa\<close> and \<open>atob\<close>\<close>

text \<open>
  The two platform functions behind \<open>BufferPolyfill\<close>.  \<open>btoa\<close> throws on a code unit
  above 0xFF; the characters of the model are 8-bit, so here it always returns.
  \<open>atob\<close> is the forgiving decoder: it drops ASCII white space, accepts missing padding
  and throws on any other character.
\<close>

definition base64Alphabet :: string where
  "base64Alphabet = ''ABCDEFGHIJKLMNOPQRSTUVWXYZabcdefghijklmnopqrstuvwxyz0123456789+/''"

definition base64Char :: "nat \<Rightarrow> char" where
  "base64Char n = base64Alphabet ! n"

fun indexOf :: "'a \<Rightarrow> 'a list \<Rightarrow> nat option" where
  "indexOf x [] = None"
| "indexOf x (y # ys) = (if x = y then Some 0 else map_option Suc (indexOf x ys))"

fun sextetsOf :: "nat list \<Rightarrow> nat list" where
  "sextetsOf (x # y # z # rest) =
     [x div 4, (x mod 4) * 16 + y div 16, (y mod 16) * 4 + z div 64, z mod 64] @ sextetsOf rest"
| "sextetsOf [x, y] = [x div 4, (x mod 4) * 16 + y div 16, (y mod 16) * 4]"
| "sextetsOf [x] = [x div 4, (x mod 4) * 16]"
| "sextetsOf [] = []"

definition btoa :: "string \<Rightarrow> string" where
  "btoa s =
     map base64Char (sextetsOf (map of_char s))
     @ replicate ((3 - length s mod 3) mod 3) (CHR ''='')"

fun bytesOf :: "nat list \<Rightarrow> nat list" where
  "bytesOf (a # b # c # d # rest) =
     [a * 4 + b div 16, (b mod 16) * 16 + c div 4, (c mod 4) * 64 + d] @ bytesOf rest"
| "bytesOf [a, b, c] = [a * 4 + b div 16, (b mod 16) * 16 + c div 4]"
| "bytesOf [a, b] = [a * 4 + b div 16]"
| "bytesOf [a] = []"
| "bytesOf [] = []"

definition asciiWhitespace :: "char \<Rightarrow> bool" where
  "asciiWhitespace c = ((of_char c :: nat) \<in> {9, 10, 12, 13, 32})"

definition stripPadding :: "string \<Rightarrow> string" where
  "stripPadding d =
     (if length d mod 4 = 0 then
        (case rev d of
           p # q # t \<Rightarrow> if p = CHR ''='' \<and> q = CHR ''='' then rev t
                        else if p = CHR ''='' then rev (q # t) else d
         | _ \<Rightarrow> d)
      else d)"

definition atob :: "string \<Rightarrow> jserror + string" where
  "atob data =
     (let d = stripPadding (filter (\<lambda>c. \<not> asciiWhitespace c) data)
      in if length d mod 4 = 1 \<or> (\<exists>c \<in> set d. indexOf c base64Alphabet = None)
         then Inl (JsError ''InvalidCharacterError'')
         else Inr (map char_of (bytesOf (map (\<lambda>c. the (indexOf c base64Alphabet)) d))))"

subsection \<open>The service\<close>

datatype DataFormat = PgcryptoBase64 | Binary | Base64 | Json | Fallback | Unknown

text \<open>The three outcomes of a remote procedure call: it throws, or answers with an error, or with data.\<close>

datatype rpc_reply = RpcThrows jserror | RpcError string | RpcData string

text \<open>
  What the service depends on: the user of the current session, the two server-side
  procedures (applied to the text and the key) and the build mode.
\<close>

record encryption_env =
  currentSession :: "string option"
  encrypt_data :: "string \<Rightarrow> string \<Rightarrow> rpc_reply"
  decrypt_data :: "string \<Rightarrow> string \<Rightarrow> rpc_reply"
  nodeEnv :: string

definition isAuthenticated :: "encryption_env \<Rightarrow> bool" where
  "isAuthenticated env = (currentSession env \<noteq> None)"

definition isHexDigit :: "char \<Rightarrow> bool" where
  "isHexDigit c =
     (let n = (of_char c :: nat)
      in (48 \<le> n \<and> n \<le> 57) \<or> (97 \<le> n \<and> n \<le> 102) \<or> (65 \<le> n \<and> n \<le> 70))"

definition isBase64Like :: "char \<Rightarrow> bool" where
  "isBase64Like c =
     (let n = (of_char c :: nat)
      in (65 \<le> n \<and> n \<le> 90) \<or> (97 \<le> n \<and> n \<le> 122) \<or> (48 \<le> n \<and> n \<le> 57)
         \<or> n = 43 \<or> n = 47 \<or> n = 61)"

definition detectDataFormat :: "platform \<Rightarrow> string \<Rightarrow> DataFormat" where
  "detectDataFormat pf data =
     (if data = [] then Unknown
      else if startsWith data ''fallback:'' then Fallback
      else if startsWith data [CHR 0x5C, CHR ''x''] \<and> length data > 2
              \<and> list_all isHexDigit (drop 2 data) then Binary
      else if startsWith data ''ww0ECQMC'' \<and> length data > 20 then PgcryptoBase64
      else if startsWith data ''ww0'' \<and> length data > 40 then PgcryptoBase64
      else if list_all isBase64Like data \<and> length data > 20
              \<and> (includesStr data ''ECQMC'' \<or> length data > 40) then PgcryptoBase64
      else if list_all isBase64Like data \<and> length data > 20 \<and> length data mod 4 = 0 then Base64
      else (case JSON_parse pf data of Inr v \<Rightarrow> Json | Inl e \<Rightarrow> Unknown))"

definition generateUserEncryptionKey :: "encryption_env \<Rightarrow> string \<Rightarrow> string" where
  "generateUserEncryptionKey env userId =
     ''healthcare_key_'' @ userId @ ''_''
       @ (if nodeEnv env = [] then ''development'' else nodeEnv env)"

definition fallbackEncoding :: "string \<Rightarrow> string" where
  "fallbackEncoding jsonData = ''fallback:'' @ btoa jsonData"

definition encrypt :: "encryption_env \<Rightarrow> json \<Rightarrow> string \<Rightarrow> jserror + string" where
  "encrypt env data userId =
     (if data = JNull then Inl (JsError ''Cannot encrypt null or undefined data'')
      else
        (let jsonData = JSON_stringify data
         in if \<not> isAuthenticated env then Inr (fallbackEncoding jsonData)
            else (case encrypt_data env jsonData (generateUserEncryptionKey env userId) of
                    RpcError m \<Rightarrow> Inr (fallbackEncoding jsonData)
                  | RpcData encryptedData \<Rightarrow> Inr encryptedData
                  | RpcThrows e \<Rightarrow> Inr (fallbackEncoding jsonData))))"

definition createSafeFallback :: json where
  "createSafeFallback = JObj []"

text \<open>The body of the \<open>try\<close> of \<open>decrypt\<close>, by the detected format.\<close>

definition decrypt_try :: "platform \<Rightarrow> encryption_env \<Rightarrow> string \<Rightarrow> string \<Rightarrow> jserror + json" where
  "decrypt_try pf env data userId =
     (case detectDataFormat pf data of
        Fallback \<Rightarrow>
          (case atob (drop 9 data) of
             Inl e \<Rightarrow> Inl e
           | Inr decodedData \<Rightarrow> JSON_parse pf decodedData)
      | PgcryptoBase64 \<Rightarrow>
          (if \<not> isAuthenticated env
           then Inl (JsError ''User must be authenticated for server-side decryption'')
           else (case decrypt_data env data (generateUserEncryptionKey env userId) of
                   RpcThrows e \<Rightarrow> Inl e
                 | RpcData decryptedData \<Rightarrow>
                     if decryptedData \<noteq> [] then JSON_parse pf decryptedData
                     else Inl (JsError ''Server-side decryption failed: Unknown error'')
                 | RpcError m \<Rightarrow>
                     Inl (JsError (''Server-side decryption failed: ''
                                   @ (if m = [] then ''Unknown error'' else m)))))
      | Binary \<Rightarrow>
          (if \<not> isAuthenticated env
           then Inl (JsError ''User must be authenticated for server-side decryption'')
           else (case decrypt_data env data (generateUserEncryptionKey env userId) of
                   RpcThrows e \<Rightarrow> Inl e
                 | RpcData decryptedData \<Rightarrow>
                     if decryptedData \<noteq> [] then JSON_parse pf decryptedData
                     else Inl (JsError ''Server-side decryption failed: Unknown error'')
                 | RpcError m \<Rightarrow>
                     Inl (JsError (''Server-side decryption failed: ''
                                   @ (if m = [] then ''Unknown error'' else m)))))
      | Json \<Rightarrow> JSON_parse pf data
      | Base64 \<Rightarrow>
          (case atob data of
             Inl e \<Rightarrow> Inr createSafeFallback
           | Inr decodedData \<Rightarrow>
               (case JSON_parse pf decodedData of
                  Inl e \<Rightarrow> Inr createSafeFallback
                | Inr v \<Rightarrow> Inr v))
      | Unknown \<Rightarrow> Inr createSafeFallback)"

definition decrypt :: "platform \<Rightarrow> encryption_env \<Rightarrow> string \<Rightarrow> string \<Rightarrow> jserror + json" where
  "decrypt pf env data userId =
     (if data = []
      then Inl (JsError ''Invalid data for decryption: data must be a non-empty string'')
      else (case decrypt_try pf env data userId of
              Inr v \<Rightarrow> Inr v
            | Inl error \<Rightarrow>
                if instanceofError error \<and>
                   (includesStr (errorMessage error) ''user_id'' \<or>
                    includesStr (errorMessage error) ''auth'')
                then Inl error
                else Inr createSafeFallback))"

text \<open>
  \<open>encryptField\<close> and \<open>decryptField\<close>.  The value given to \<open>encryptField\<close> may be anything
  (\<open>null\<close> also stands for \<open>undefined\<close>); \<open>decryptField\<close> never throws.
\<close>

definition encryptField :: "encryption_env \<Rightarrow> json \<Rightarrow> string \<Rightarrow> jserror + string" where
  "encryptField env v userId =
     (case v of
        JStr s \<Rightarrow>
          if s = [] then Inl (JsError ''Field value must be a non-empty string'')
          else if \<not> isAuthenticated env then Inr (fallbackEncoding s)
          else (case encrypt_data env s (generateUserEncryptionKey env userId) of
                  RpcError m \<Rightarrow> Inr (fallbackEncoding s)
                | RpcData encryptedData \<Rightarrow> Inr encryptedData
                | RpcThrows e \<Rightarrow> Inr (fallbackEncoding s))
      | _ \<Rightarrow> Inl (JsError ''Field value must be a non-empty string''))"

definition decryptField :: "platform \<Rightarrow> encryption_env \<Rightarrow> json \<Rightarrow> string \<Rightarrow> string" where
  "decryptField pf env encryptedValue userId =
     (case encryptedValue of
        JStr s \<Rightarrow>
          if s = [] then []
          else
            (let serverSide =
                   (if \<not> isAuthenticated env then []
                    else (case decrypt_data env s (generateUserEncryptionKey env userId) of
                            RpcThrows e \<Rightarrow> s
                          | RpcData decryptedData \<Rightarrow> decryptedData
                          | RpcError m \<Rightarrow> []))
             in case detectDataFormat pf s of
                  Fallback \<Rightarrow> (case atob (drop 9 s) of Inl e \<Rightarrow> s | Inr decoded \<Rightarrow> decoded)
                | PgcryptoBase64 \<Rightarrow> serverSide
                | Binary \<Rightarrow> serverSide
                | Base64 \<Rightarrow> (case atob s of Inl e \<Rightarrow> s | Inr decoded \<Rightarrow> decoded)
                | Json \<Rightarrow> s
                | Unknown \<Rightarrow> s)
      | _ \<Rightarrow> [])"

section \<open>The stores and their environment\<close>

text \<open>
  The requests that the services send to the database.  \<open>Fetch\<close>, \<open>Store\<close> and
  \<open>SoftDelete\<close> are the select, the upsert (or insert) and the soft delete behind \<open>get\<close>,
  \<open>set\<close> and \<open>remove\<close>; \<open>MarkReplaced\<close> is the update by which a write of the goals or
  achievements first marks the live rows as deleted; \<open>SelectPreferences\<close> is the select
  that precedes a write of the favorites.  The others address the tables \<open>sync_status\<close>
  and \<open>offline_changes_queue\<close>.
\<close>

datatype remote_op =
    Fetch | Store | SoftDelete | MarkReplaced | SelectPreferences
  | SelectQueue | UpdateQueue | SelectSyncStatus | UpsertSyncStatus

datatype Operation = Insert | Update | Delete

text \<open>
  A row of one of the data tables is the list of its columns, as the client sent them and
  as a select returns them.  A column without a value reads as \<open>null\<close>.  The rows of a
  table are kept in the order in which a select with
  \<open>order('created_at', {ascending: false})\<close> lists them: the rows that a statement adds
  go in front, in the order of the request.
\<close>

type_synonym row = "(string \<times> json) list"

type_synonym database = "string \<Rightarrow> row list"

text \<open>A row of the table \<open>sync_status\<close>; \<open>last_sync_at\<close> is filled in by the database.\<close>

record SyncStatusRow =
  statusUser :: string
  statusTable :: string
  statusValue :: string
  last_sync_at :: string

text \<open>A row of the table \<open>offline_changes_queue\<close>.\<close>

record OfflineChange =
  changeId :: string
  changeUserId :: string
  table_name :: string
  operation :: Operation
  encrypted_data :: string
  queued_at :: int
  processed :: bool
  processed_at :: "string option"
  error_message :: "string option"

text \<open>An entry of the coordinator's \<open>syncQueue\<close> map.\<close>

record QueuedWrite =
  queuedKey :: string
  queuedData :: json
  queuedUserId :: string
  queuedTimestamp :: int

datatype SyncStatus = Idle | Syncing | Conflict | SyncError | Offline

datatype ConflictResolution = LocalWins | RemoteWins | Manual | LatestTimestamp

record SyncSettings =
  autoSync :: bool
  syncInterval :: nat
  conflictResolution :: ConflictResolution
  settingsMaxRetries :: nat
  batchSize :: nat
  healthcareDataPriority :: bool

datatype ConflictType = UpdateConflict | DeleteConflict | ConcurrentEdit

record SyncConflict =
  conflictKey :: string
  conflictTable :: string
  localData :: json
  remoteData :: json
  localTimestamp :: string
  remoteTimestamp :: string
  conflictType :: ConflictType

text \<open>
  The calls that reach a store or an outside party, in the order in which they are made.
  \<open>RemoteGet\<close>, \<open>RemoteSet\<close> and \<open>RemoteRemove\<close> mark the entry into the remote
  backend's method; \<open>LocalGet\<close>, \<open>LocalSet\<close> and \<open>LocalRemove\<close> the call of the storage
  service; \<open>ReplayAttempt\<close> the start of the replay of a queued change, \<open>ReplayProcessed\<close>
  and \<open>ReplayFailed\<close> the two updates by which the drain records its outcome.
\<close>

datatype event =
    LocalGet string
  | LocalSet string json
  | LocalRemove string
  | RemoteGet string string
  | RemoteSet string json string
  | RemoteRemove string string
  | AuditLog string string string
  | SyncStatusUpsert string string string
  | QueuedForSync string string
  | ReplayAttempt string
  | ReplayProcessed string
  | ReplayFailed string string
  | Notify SyncStatus

text \<open>
  The state the services work on.

  \<^item> \<open>localStorage\<close> is the Local Cache Store behind \<open>storageService\<close>; the coordinator's
    local backend stores a record under its key alone.  \<open>localFault\<close> tells for which keys
    a write of the storage service throws (a full quota), and with what.
  \<^item> \<open>remoteDb\<close> holds the rows of the data tables of the Remote Record Store by table
    name, \<open>syncStatusRows\<close> the rows of \<open>sync_status\<close> and \<open>offlineQueue\<close> the rows of
    \<open>offline_changes_queue\<close>.  \<open>remoteFault\<close> tells which requests the database answers
    with an error, and with which one: the database is not part of the client, and a
    request that its schema or its policies refuse is such a fault.
  \<^item> \<open>sessionUser\<close> is the answer of the identity provider: the call throws, or there is
    no session, or the session's user.  \<open>encryptionEnv\<close> is what the encryption service
    depends on, \<open>hostPlatform\<close> the platform that the remote backend runs on.
  \<^item> \<open>hdsOnline\<close> and \<open>syncQueue\<close> are the fields of \<open>HybridDataService\<close>; the fields
    from \<open>syncSettings\<close> to \<open>pendingConflicts\<close> are those of \<open>SyncService\<close>.
  \<^item> \<open>clockISO\<close> and \<open>clockMs\<close> are the current time as \<open>new Date().toISOString()\<close> and
    \<open>Date.now()\<close> give it.
  \<^item> \<open>trace\<close> lists the calls made so far.
\<close>

record world =
  localStorage :: "string \<rightharpoonup> json"
  localFault :: "string \<Rightarrow> jserror option"
  remoteDb :: database
  remoteFault :: "remote_op \<Rightarrow> string \<Rightarrow> jserror option"
  syncStatusRows :: "SyncStatusRow list"
  offlineQueue :: "OfflineChange list"
  sessionUser :: "jserror + string option"
  encryptionEnv :: encryption_env
  hostPlatform :: platform
  hdsOnline :: bool
  syncQueue :: "(string \<times> QueuedWrite) list"
  syncSettings :: SyncSettings
  syncStatus :: SyncStatus
  lastSyncTime :: "string option"
  syncOnline :: bool
  pendingConflicts :: "(string \<times> SyncConflict) list"
  clockISO :: string
  clockMs :: int
  trace :: "event list"

definition emit :: "event \<Rightarrow> world \<Rightarrow> world" where
  "emit e w = w\<lparr>trace := trace w @ [e]\<rparr>"

subsection \<open>Storage service\<close>

text \<open>
  Modelled from the spec: the module \<open>storageService\<close> (\<open>get\<close>, \<open>set\<close>, \<open>remove\<close>) is not
  part of the sources.  It is the Local Cache Store of the specification, a key-value
  store on the device: \<open>get\<close> yields the stored value, or \<open>null\<close> for a missing key.
\<close>

definition storedValue :: "string \<Rightarrow> world \<Rightarrow> json" where
  "storedValue key w = (case localStorage w key of None \<Rightarrow> JNull | Some v \<Rightarrow> v)"

definition storageGet :: "string \<Rightarrow> world \<Rightarrow> json \<times> world" where
  "storageGet key w = (storedValue key w, emit (LocalGet key) w)"

definition storageSet :: "string \<Rightarrow> json \<Rightarrow> world \<Rightarrow> (jserror + unit) \<times> world" where
  "storageSet key data w =
     (let w1 = emit (LocalSet key data) w
      in case localFault w key of
           Some e \<Rightarrow> (Inl e, w1)
         | None \<Rightarrow> (Inr (), w1\<lparr>localStorage := (localStorage w1)(key \<mapsto> data)\<rparr>))"

definition storageRemove :: "string \<Rightarrow> world \<Rightarrow> world" where
  "storageRemove key w =
     (let w1 = emit (LocalRemove key) w
      in w1\<lparr>localStorage := (localStorage w1)(key := None)\<rparr>)"

subsection \<open>The requests on the rows of a table\<close>

text \<open>
  \<open>column\<close> reads a column of a row; \<open>rowMatches\<close> is the conjunction of the \<open>eq\<close> filters of a
  request; \<open>assign\<close> writes the columns of a request onto a row.
\<close>

definition column :: "string \<Rightarrow> row \<Rightarrow> json" where
  "column c r = (case map_of r c of None \<Rightarrow> JNull | Some v \<Rightarrow> v)"

definition rowMatches :: "row \<Rightarrow> row \<Rightarrow> bool" where
  "rowMatches conds r = list_all (\<lambda>cv. map_of r (fst cv) = Some (snd cv)) conds"

definition selectRows :: "row \<Rightarrow> row list \<Rightarrow> row list" where
  "selectRows conds rows = filter (rowMatches conds) rows"

definition assign :: "row \<Rightarrow> row \<Rightarrow> row" where
  "assign changes r = fold (\<lambda>cv acc. map_set (fst cv) (snd cv) acc) changes r"

definition updateRows :: "row \<Rightarrow> row \<Rightarrow> row list \<Rightarrow> row list" where
  "updateRows conds changes rows = map (\<lambda>r. if rowMatches conds r then assign changes r else r) rows"

text \<open>
  The \<open>DEFAULT\<close> clauses of \<open>schema.sql\<close> for the columns that the client reads back: a new
  row of a table with a deletion flag is not deleted, a new profile has no points.
\<close>

definition insertDefaults :: "string \<Rightarrow> row" where
  "insertDefaults table =
     (if table \<in> {''user_goals'', ''user_achievements'', ''user_calendar_notes'',
                    ''user_symptoms'', ''user_word_files''}
      then [(''is_deleted'', JBool False)]
      else if table = ''user_profiles'' then [(''points'', JNum 0)]
      else [])"

definition conflictValues :: "string list \<Rightarrow> row \<Rightarrow> json list" where
  "conflictValues cols r = map (\<lambda>c. column c r) cols"

text \<open>
  An upsert with \<open>onConflict\<close> on the given columns and \<open>ignoreDuplicates: false\<close>: a row
  of the request that meets an existing row on these columns overwrites the columns it
  names and leaves the row in its place; the other rows of the request are added.
\<close>

definition upsertRows :: "string \<Rightarrow> string list \<Rightarrow> row list \<Rightarrow> row list \<Rightarrow> row list" where
  "upsertRows table cols news rows =
     (let present = (\<lambda>n. conflictValues cols n \<in> set (map (conflictValues cols) rows));
          overwrite = (\<lambda>n r. if conflictValues cols r = conflictValues cols n then assign n r else r)
      in map (\<lambda>n. assign n (insertDefaults table)) (filter (\<lambda>n. \<not> present n) news)
         @ fold (\<lambda>n rs. map (overwrite n) rs) (filter present news) rows)"

section \<open>Remote backend (SupabaseStorageBackend in dataService.ts)\<close>

definition invalidUserId :: "string \<Rightarrow> bool" where
  "invalidUserId userId = (userId = [] \<or> trim userId = [])"

definition tableMap :: "(string \<times> string) list" where
  "tableMap =
     [(''goals'', ''user_goals''), (''achievements'', ''user_achievements''),
      (''skills'', ''user_skills''), (''skillsList'', ''user_skills''),
      (''skillsCompleted'', ''user_skills''), (''calendarNotes'', ''user_calendar_notes''),
      (''symptoms'', ''user_symptoms''), (''wordFiles'', ''user_word_files''),
      (''username'', ''user_profiles''), (''favorites'', ''user_profiles''),
      (''points'', ''user_profiles'')]"

definition getTableName :: "string \<Rightarrow> string" where
  "getTableName key = (case map_of tableMap key of Some t \<Rightarrow> t | None \<Rightarrow> ''user_profiles'')"

definition mismatchMessage :: string where
  "mismatchMessage = ''Session user ID mismatch - potential cross-user data access attempt''"

text \<open>
  \<open>logDataAccess\<close>: the body of the \<open>try\<close>, then the \<open>catch\<close> that re-throws the
  security error and swallows every other one.  The reply to the insert into
  \<open>audit_logs\<close> is not looked at.
\<close>

definition logDataAccess_try ::
  "string \<Rightarrow> string \<Rightarrow> string \<Rightarrow> world \<Rightarrow> (jserror + unit) \<times> world"
where
  "logDataAccess_try action tableName userId w =
     (case sessionUser w of
        Inl e \<Rightarrow> (Inl e, w)
      | Inr session \<Rightarrow>
          if session \<noteq> Some userId then (Inl (JsError mismatchMessage), w)
          else (Inr (), emit (AuditLog action tableName userId) w))"

definition logDataAccess ::
  "string \<Rightarrow> string \<Rightarrow> string \<Rightarrow> world \<Rightarrow> (jserror + unit) \<times> world"
where
  "logDataAccess action tableName userId w =
     (case logDataAccess_try action tableName userId w of
        (Inl error, w1) \<Rightarrow>
          if instanceofError error \<and> includesStr (errorMessage error) ''Session user ID mismatch''
          then (Inl error, w1)
          else (Inr (), w1)
      | (Inr u, w1) \<Rightarrow> (Inr u, w1))"

subsection \<open>Reading the tables\<close>

text \<open>\<open>decryptData\<close>: \<open>null\<close> stays \<open>null\<close>, a string is decrypted, anything else is refused.\<close>

definition decryptData :: "world \<Rightarrow> json \<Rightarrow> string \<Rightarrow> jserror + json" where
  "decryptData w encryptedData userId =
     (case encryptedData of
        JNull \<Rightarrow> Inr JNull
      | JStr s \<Rightarrow>
          (case decrypt (hostPlatform w) (encryptionEnv w) s userId of
             Inr decrypted \<Rightarrow> Inr decrypted
           | Inl error \<Rightarrow>
               if instanceofError error \<and>
                  (includesStr (errorMessage error) ''user_id'' \<or>
                   includesStr (errorMessage error) ''auth'')
               then Inl error
               else Inr JNull)
      | other \<Rightarrow>
          Inl (JsError (''Invalid data type for decryption: expected encrypted string, got ''
                        @ typeofText other)))"

text \<open>\<open>.maybeSingle()\<close> and \<open>.single()\<close> want one row; more than one is an error of the request.\<close>

definition multipleRowsError :: jserror where
  "multipleRowsError = NonError ''JSON object requested, multiple (or no) rows returned''"

definition getUserProfileData :: "string \<Rightarrow> string \<Rightarrow> world \<Rightarrow> jserror + json" where
  "getUserProfileData key userId w =
     (case remoteFault w Fetch key of
        Some error \<Rightarrow> Inl error
      | None \<Rightarrow>
          (case selectRows [(''user_id'', JStr userId)] (remoteDb w ''user_profiles'') of
             [] \<Rightarrow> Inr JNull
           | [data] \<Rightarrow>
               if key = ''username'' then
                 (if truthy (column ''encrypted_username'' data)
                  then Inr (JStr (decryptField (hostPlatform w) (encryptionEnv w)
                                    (column ''encrypted_username'' data) userId))
                  else Inr JNull)
               else if key = ''points'' then Inr (column ''points'' data)
               else if key = ''favorites'' then
                 (if truthy (column ''encrypted_preferences'' data)
                  then (case decryptData w (column ''encrypted_preferences'' data) userId of
                          Inl error \<Rightarrow> Inl error
                        | Inr preferences \<Rightarrow>
                            if preferences = JNull then Inl (nullReadError ''favorites'')
                            else (case getProp ''favorites'' preferences of
                                    None \<Rightarrow> Inr JNull
                                  | Some v \<Rightarrow> Inr (if truthy v then v else JNull)))
                  else Inr JNull)
               else Inr JNull
           | _ \<Rightarrow> Inl multipleRowsError))"

text \<open>The object that \<open>getUserDataFromTable\<close> builds from a decrypted goal or achievement.\<close>

definition readGoal :: "json \<Rightarrow> jserror + json" where
  "readGoal goal =
     (if goal = JNull then Inl (nullReadError ''id'')
      else Inr (JObj (withProps (ownEntries goal)
                        [(''id'', stringOr ''id'' [] goal),
                         (''text'', stringOr ''text'' [] goal),
                         (''title'', stringOr ''title'' [] goal),
                         (''completed'', boolOr ''completed'' False goal)])))"

definition readAchievement :: "json \<Rightarrow> jserror + json" where
  "readAchievement achievement =
     (if achievement = JNull then Inl (nullReadError ''id'')
      else Inr (JObj (withProps (ownEntries achievement)
                        [(''id'', stringOr ''id'' [] achievement),
                         (''text'', stringOr ''text'' [] achievement),
                         (''title'', stringOr ''title'' [] achievement),
                         (''date'', stringOr ''date'' [] achievement),
                         (''type'', stringOr ''type'' ''achievement'' achievement)])))"

text \<open>The object keyed by date that is built from the rows of the calendar notes or the symptoms.\<close>

definition readByDate :: "world \<Rightarrow> string \<Rightarrow> string \<Rightarrow> string \<Rightarrow> row list \<Rightarrow> jserror + json" where
  "readByDate w dateColumn dataColumn userId rows =
     (case collect (map (\<lambda>r. case decryptData w (column dataColumn r) userId of
                                 Inl error \<Rightarrow> Inl error
                               | Inr v \<Rightarrow> Inr (propertyKey (column dateColumn r), v)) rows) of
        Inl error \<Rightarrow> Inl error
      | Inr entries \<Rightarrow> Inr (JObj (withProps [] entries)))"

definition getUserDataFromTable :: "string \<Rightarrow> string \<Rightarrow> string \<Rightarrow> world \<Rightarrow> jserror + json" where
  "getUserDataFromTable key tableName userId w =
     (case remoteFault w Fetch key of
        Some error \<Rightarrow> Inl error
      | None \<Rightarrow>
          (let data = selectRows [(''user_id'', JStr userId), (''is_deleted'', JBool False)]
                        (remoteDb w tableName)
           in if data = [] then Inr JNull
              else if tableName = ''user_goals'' then
                (case collect (map (\<lambda>r. case decryptData w (column ''encrypted_goal_data'' r) userId of
                                            Inl error \<Rightarrow> Inl error
                                          | Inr goal \<Rightarrow> readGoal goal) data) of
                   Inl error \<Rightarrow> Inl error
                 | Inr goals \<Rightarrow> Inr (JArr goals))
              else if tableName = ''user_achievements'' then
                (case collect (map (\<lambda>r. case decryptData w (column ''encrypted_achievement_data'' r)
                                                 userId of
                                            Inl error \<Rightarrow> Inl error
                                          | Inr achievement \<Rightarrow> readAchievement achievement) data) of
                   Inl error \<Rightarrow> Inl error
                 | Inr achievements \<Rightarrow> Inr (JArr achievements))
              else if tableName = ''user_skills'' then
                (if key = ''skillsList'' \<and> truthy (column ''encrypted_skills_data'' (hd data))
                 then decryptData w (column ''encrypted_skills_data'' (hd data)) userId
                 else if key = ''skillsCompleted''
                         \<and> truthy (column ''encrypted_skills_completed'' (hd data))
                 then decryptData w (column ''encrypted_skills_completed'' (hd data)) userId
                 else Inr JNull)
              else if tableName = ''user_calendar_notes'' then
                readByDate w ''note_date'' ''encrypted_note_data'' userId data
              else if tableName = ''user_symptoms'' then
                readByDate w ''symptom_date'' ''encrypted_symptom_data'' userId data
              else if tableName = ''user_word_files'' then
                Inr (JArr (map (\<lambda>r. JObj [(''id'', column ''file_id'' r),
                                           (''name'', JStr (decryptField (hostPlatform w)
                                                             (encryptionEnv w)
                                                             (column ''encrypted_file_name'' r) userId)),
                                           (''url'', column ''file_url'' r),
                                           (''file'', JNull)]) data))
              else Inr JNull))"

definition remoteFetch :: "string \<Rightarrow> string \<Rightarrow> world \<Rightarrow> jserror + json" where
  "remoteFetch key userId w =
     (if getTableName key = ''user_profiles'' then getUserProfileData key userId w
      else getUserDataFromTable key (getTableName key) userId w)"

subsection \<open>Writing the tables\<close>

text \<open>
  An upsert or insert of \<open>set\<close>: the reply is an error when \<open>remoteFault\<close> says so, when two
  rows of an upsert meet on the conflict columns, or when a row of an insert repeats a
  file of the user that the table already has (the unique constraints of the
  migration).
\<close>

definition upsertRequest ::
  "world \<Rightarrow> string \<Rightarrow> string \<Rightarrow> string list \<Rightarrow> row list \<Rightarrow> database \<Rightarrow> (jserror + unit) \<times> database"
where
  "upsertRequest w key table cols news db =
     (case remoteFault w Store key of
        Some error \<Rightarrow> (Inl error, db)
      | None \<Rightarrow>
          if \<not> distinct (map (conflictValues cols) news)
          then (Inl (NonError ''ON CONFLICT DO UPDATE command cannot affect row a second time''), db)
          else (Inr (), db(table := upsertRows table cols news (db table))))"

definition insertRequest ::
  "world \<Rightarrow> string \<Rightarrow> string \<Rightarrow> string list \<Rightarrow> row list \<Rightarrow> database \<Rightarrow> (jserror + unit) \<times> database"
where
  "insertRequest w key table uniqueCols news db =
     (case remoteFault w Store key of
        Some error \<Rightarrow> (Inl error, db)
      | None \<Rightarrow>
          if \<not> distinct (map (conflictValues uniqueCols) (news @ db table))
          then (Inl (NonError ''duplicate key value violates unique constraint''), db)
          else (Inr (), db(table := map (\<lambda>n. assign n (insertDefaults table)) news @ db table)))"

text \<open>
  \<open>setUserProfileData\<close>.  The username is handed to \<open>encryptField\<close> without \<open>await\<close>, so
  the column receives the promise.  For the favorites the stored preferences are read
  first; the reply to that select is used only when it carries one row.
\<close>

definition storedPreferences :: "string \<Rightarrow> string \<Rightarrow> world \<Rightarrow> json" where
  "storedPreferences key userId w =
     (case remoteFault w SelectPreferences key of
        Some error \<Rightarrow> JObj []
      | None \<Rightarrow>
          (case selectRows [(''user_id'', JStr userId)] (remoteDb w ''user_profiles'') of
             [existingProfile] \<Rightarrow>
               if truthy (column ''encrypted_preferences'' existingProfile)
               then (case decryptData w (column ''encrypted_preferences'' existingProfile) userId of
                       Inl error \<Rightarrow> JObj []
                     | Inr preferences \<Rightarrow>
                         (case preferences of
                            JObj kvs \<Rightarrow> preferences
                          | JArr xs \<Rightarrow> preferences
                          | _ \<Rightarrow> JObj []))
               else JObj []
           | _ \<Rightarrow> JObj []))"

text \<open>\<open>preferences.favorites = data\<close>; on an array the new property is not part of its JSON text.\<close>

definition setFavorites :: "json \<Rightarrow> json \<Rightarrow> json" where
  "setFavorites preferences data =
     (case preferences of
        JObj kvs \<Rightarrow> JObj (withProps kvs [(''favorites'', data)])
      | other \<Rightarrow> other)"

definition profileUpsert :: "world \<Rightarrow> string \<Rightarrow> string \<Rightarrow> row \<Rightarrow> (jserror + unit) \<times> database" where
  "profileUpsert w key userId updateData =
     upsertRequest w key ''user_profiles'' [''user_id'']
       [(''user_id'', JStr userId) # updateData
          @ [(''device_fingerprint'', JStr ''SERVER-SIDE-SUPABASE'')]]
       (remoteDb w)"

definition setUserProfileData ::
  "string \<Rightarrow> json \<Rightarrow> string \<Rightarrow> world \<Rightarrow> (jserror + unit) \<times> database"
where
  "setUserProfileData key data userId w =
     (if key = ''username'' then
        profileUpsert w key userId [(''encrypted_username'', unawaitedPromise)]
      else if key = ''points'' then
        profileUpsert w key userId [(''points'', data)]
      else if key = ''favorites'' then
        (case encrypt (encryptionEnv w) (setFavorites (storedPreferences key userId w) data) userId of
           Inl error \<Rightarrow> (Inl error, remoteDb w)
         | Inr encrypted \<Rightarrow>
             profileUpsert w key userId [(''encrypted_preferences'', JStr encrypted)])
      else (Inr (), remoteDb w))"

text \<open>The elements that the write of the goals or achievements keeps, and how it completes them.\<close>

definition hasId :: "json \<Rightarrow> bool" where
  "hasId item =
     (truthy item \<and> (case getProp ''id'' item of Some (JStr s) \<Rightarrow> trim s \<noteq> [] | _ \<Rightarrow> False))"

definition writeGoal :: "json \<Rightarrow> json" where
  "writeGoal goal =
     JObj (withProps (ownEntries goal)
             [(''text'', stringOr ''text'' [] goal), (''title'', stringOr ''title'' [] goal)])"

definition today :: "world \<Rightarrow> string" where
  "today w = takeWhile (\<lambda>c. c \<noteq> CHR ''T'') (clockISO w)"

definition writeAchievement :: "world \<Rightarrow> json \<Rightarrow> json" where
  "writeAchievement w achievement =
     JObj (withProps (ownEntries achievement)
             [(''text'', stringOr ''text'' [] achievement),
              (''title'', stringOr ''title'' [] achievement),
              (''date'', stringOr ''date'' (today w) achievement)])"

definition orElse :: "json option \<Rightarrow> json \<Rightarrow> json" where
  "orElse v d = (case v of None \<Rightarrow> d | Some x \<Rightarrow> if truthy x then x else d)"

definition goalRow :: "world \<Rightarrow> string \<Rightarrow> json \<Rightarrow> jserror + row" where
  "goalRow w userId goal =
     (case encrypt (encryptionEnv w) goal userId of
        Inl error \<Rightarrow> Inl error
      | Inr encrypted \<Rightarrow>
          Inr ([(''user_id'', JStr userId)]
               @ optionalProp ''goal_id'' (getProp ''id'' goal)
               @ [(''encrypted_goal_data'', JStr encrypted)]
               @ optionalProp ''completed'' (getProp ''completed'' goal)
               @ [(''version'', JNum 1), (''is_deleted'', JBool False)]))"

definition achievementRow :: "world \<Rightarrow> string \<Rightarrow> json \<Rightarrow> jserror + row" where
  "achievementRow w userId achievement =
     (case encrypt (encryptionEnv w) achievement userId of
        Inl error \<Rightarrow> Inl error
      | Inr encrypted \<Rightarrow>
          Inr ([(''user_id'', JStr userId)]
               @ optionalProp ''achievement_id'' (getProp ''id'' achievement)
               @ [(''encrypted_achievement_data'', JStr encrypted)]
               @ optionalProp ''achievement_date'' (getProp ''date'' achievement)
               @ [(''achievement_type'', orElse (getProp ''type'' achievement) (JStr ''general'')),
                  (''version'', JNum 1), (''is_deleted'', JBool False)]))"

text \<open>
  The update that marks the live rows of the user as replaced.  Its reply is not looked
  at: when the database refuses it, the rows stay and the write goes on.
\<close>

definition markReplaced :: "world \<Rightarrow> string \<Rightarrow> string \<Rightarrow> string \<Rightarrow> database \<Rightarrow> database" where
  "markReplaced w key table userId db =
     (case remoteFault w MarkReplaced key of
        Some error \<Rightarrow> db
      | None \<Rightarrow>
          db(table := updateRows [(''user_id'', JStr userId), (''is_deleted'', JBool False)]
                        [(''is_deleted'', JBool True), (''deleted_at'', JStr (clockISO w)),
                         (''deletion_reason'', JStr ''replaced_by_update'')]
                        (db table)))"

definition replaceRows ::
  "world \<Rightarrow> string \<Rightarrow> string \<Rightarrow> string \<Rightarrow> string \<Rightarrow> (jserror + row) list \<Rightarrow> (jserror + unit) \<times> database"
where
  "replaceRows w key table idColumn userId rows =
     (let db1 = markReplaced w key table userId (remoteDb w)
      in if rows = [] then (Inr (), db1)
         else (case collect rows of
                 Inl error \<Rightarrow> (Inl error, db1)
               | Inr news \<Rightarrow> upsertRequest w key table [''user_id'', idColumn] news db1))"

text \<open>The rows for an object keyed by date (calendar notes, symptoms).\<close>

definition datedRow ::
  "world \<Rightarrow> string \<Rightarrow> string \<Rightarrow> string \<Rightarrow> bool \<Rightarrow> string \<times> json \<Rightarrow> jserror + row"
where
  "datedRow w userId dateColumn dataColumn counted entry =
     (case encrypt (encryptionEnv w) (snd entry) userId of
        Inl error \<Rightarrow> Inl error
      | Inr encrypted \<Rightarrow>
          Inr ([(''user_id'', JStr userId), (dateColumn, JStr (fst entry)),
                (dataColumn, JStr encrypted)]
               @ (if counted
                  then [(''symptom_count'',
                         JNum (if isArray (snd entry) then int (length (ownEntries (snd entry)))
                               else 0))]
                  else [])
               @ [(''version'', JNum 1)]))"

definition fileRow :: "world \<Rightarrow> string \<Rightarrow> json \<Rightarrow> jserror + row" where
  "fileRow w userId file =
     (if file = JNull then Inl (nullReadError ''id'')
      else (case encryptField (encryptionEnv w)
                   (case getProp ''name'' file of None \<Rightarrow> JNull | Some v \<Rightarrow> v) userId of
              Inl error \<Rightarrow> Inl error
            | Inr encrypted \<Rightarrow>
                Inr ([(''user_id'', JStr userId)]
                     @ optionalProp ''file_id'' (getProp ''id'' file)
                     @ [(''encrypted_file_name'', JStr encrypted)]
                     @ optionalProp ''file_url'' (getProp ''url'' file)
                     @ [(''version'', JNum 1)])))"

text \<open>\<open>x && x.length > 0\<close>, for a length that is a number.\<close>

definition hasElements :: "json \<Rightarrow> bool" where
  "hasElements x = (truthy x \<and> (case getProp ''length'' x of Some (JNum n) \<Rightarrow> n > 0 | _ \<Rightarrow> False))"

definition setUserDataInTable ::
  "string \<Rightarrow> json \<Rightarrow> string \<Rightarrow> string \<Rightarrow> world \<Rightarrow> (jserror + unit) \<times> database"
where
  "setUserDataInTable key data tableName userId w =
     (if tableName = ''user_goals'' then
        (case data of
           JArr goals \<Rightarrow>
             replaceRows w key tableName ''goal_id'' userId
               (map (\<lambda>goal. goalRow w userId (writeGoal goal)) (filter hasId goals))
         | JNull \<Rightarrow> (Inl (nullReadError ''filter''), remoteDb w)
         | _ \<Rightarrow> (Inl (notAFunctionError ''goals.filter''), remoteDb w))
      else if tableName = ''user_achievements'' then
        (case data of
           JArr achievements \<Rightarrow>
             replaceRows w key tableName ''achievement_id'' userId
               (map (\<lambda>achievement. achievementRow w userId (writeAchievement w achievement))
                  (filter hasId achievements))
         | JNull \<Rightarrow> (Inl (nullReadError ''filter''), remoteDb w)
         | _ \<Rightarrow> (Inl (notAFunctionError ''achievements.filter''), remoteDb w))
      else if tableName = ''user_skills'' then
        (if key = ''skillsList'' \<and> truthy data then
           (case encrypt (encryptionEnv w) data userId of
              Inl error \<Rightarrow> (Inl error, remoteDb w)
            | Inr encrypted \<Rightarrow>
                upsertRequest w key tableName [''user_id'']
                  [[(''user_id'', JStr userId), (''encrypted_skills_data'', JStr encrypted),
                    (''skills_count'',
                     JNum (if isArray data then int (length (ownEntries data)) else 0)),
                    (''version'', JNum 1)]]
                  (remoteDb w))
         else if key = ''skillsCompleted'' \<and> truthy data then
           (case encrypt (encryptionEnv w) data userId of
              Inl error \<Rightarrow> (Inl error, remoteDb w)
            | Inr encrypted \<Rightarrow>
                upsertRequest w key tableName [''user_id'']
                  [[(''user_id'', JStr userId), (''encrypted_skills_data'', JStr ''[]''),
                    (''encrypted_skills_completed'', JStr encrypted),
                    (''skills_count'', JNum (int (length (ownEntries data)))),
                    (''version'', JNum 1)]]
                  (remoteDb w))
         else (Inr (), remoteDb w))
      else if tableName = ''user_calendar_notes'' then
        (if truthy data \<and> ownEntries data \<noteq> [] then
           (case collect (map (datedRow w userId ''note_date'' ''encrypted_note_data'' False)
                            (ownEntries data)) of
              Inl error \<Rightarrow> (Inl error, remoteDb w)
            | Inr noteRows \<Rightarrow>
                upsertRequest w key tableName [''user_id'', ''note_date''] noteRows (remoteDb w))
         else (Inr (), remoteDb w))
      else if tableName = ''user_symptoms'' then
        (if truthy data \<and> ownEntries data \<noteq> [] then
           (case collect (map (datedRow w userId ''symptom_date'' ''encrypted_symptom_data'' True)
                            (ownEntries data)) of
              Inl error \<Rightarrow> (Inl error, remoteDb w)
            | Inr symptomRows \<Rightarrow>
                upsertRequest w key tableName [''user_id'', ''symptom_date''] symptomRows
                  (remoteDb w))
         else (Inr (), remoteDb w))
      else if tableName = ''user_word_files'' then
        (if hasElements data then
           (case data of
              JArr wordFiles \<Rightarrow>
                (case collect (map (fileRow w userId) wordFiles) of
                   Inl error \<Rightarrow> (Inl error, remoteDb w)
                 | Inr fileRows \<Rightarrow>
                     insertRequest w key tableName [''user_id'', ''file_id''] fileRows (remoteDb w))
            | _ \<Rightarrow> (Inl (notAFunctionError ''wordFiles.map''), remoteDb w))
         else (Inr (), remoteDb w))
      else (Inr (), remoteDb w))"

definition remoteStore :: "string \<Rightarrow> json \<Rightarrow> string \<Rightarrow> world \<Rightarrow> (jserror + unit) \<times> world" where
  "remoteStore key data userId w =
     (case (if getTableName key = ''user_profiles'' then setUserProfileData key data userId w
            else setUserDataInTable key data (getTableName key) userId w) of
        (result, db) \<Rightarrow> (result, w\<lparr>remoteDb := db\<rparr>))"

text \<open>The soft delete of \<open>remove\<close>: every row of the user in the table of the key.\<close>

definition remoteSoftDelete :: "string \<Rightarrow> string \<Rightarrow> world \<Rightarrow> (jserror + unit) \<times> world" where
  "remoteSoftDelete key userId w =
     (case remoteFault w SoftDelete key of
        Some error \<Rightarrow> (Inl error, w)
      | None \<Rightarrow>
          (Inr (),
           w\<lparr>remoteDb := (remoteDb w)
                (getTableName key :=
                   updateRows [(''user_id'', JStr userId)]
                     [(''is_deleted'', JBool True), (''deleted_at'', JStr (clockISO w)),
                      (''deletion_reason'', JStr ''user_request'')]
                     (remoteDb w (getTableName key)))\<rparr>))"

text \<open>
  \<open>updateSyncStatus\<close> sends an upsert that names no row, so that the database adds one,
  and looks neither at the reply nor at a failure.
\<close>

definition updateSyncStatus :: "string \<Rightarrow> string \<Rightarrow> string \<Rightarrow> world \<Rightarrow> world" where
  "updateSyncStatus tableName userId status w =
     (let w1 = emit (SyncStatusUpsert tableName userId status) w
      in case remoteFault w UpsertSyncStatus tableName of
           Some error \<Rightarrow> w1
         | None \<Rightarrow>
             w1\<lparr>syncStatusRows :=
                  \<lparr>statusUser = userId, statusTable = tableName, statusValue = status,
                   last_sync_at = clockISO w\<rparr> # syncStatusRows w1\<rparr>)"

definition supabaseGet_try :: "string \<Rightarrow> string \<Rightarrow> world \<Rightarrow> (jserror + json) \<times> world" where
  "supabaseGet_try key userId w =
     (if invalidUserId userId then (Inl (JsError ''Invalid userId provided for data access''), w)
      else case logDataAccess ''DATA_ACCESS'' (getTableName key) userId w of
             (Inl e, w1) \<Rightarrow> (Inl e, w1)
           | (Inr _, w1) \<Rightarrow> (remoteFetch key userId w1, w1))"

definition supabaseGet :: "string \<Rightarrow> string \<Rightarrow> world \<Rightarrow> (jserror + json) \<times> world" where
  "supabaseGet key userId w =
     (case supabaseGet_try key userId (emit (RemoteGet key userId) w) of
        (Inr result, w1) \<Rightarrow> (Inr result, w1)
      | (Inl error, w1) \<Rightarrow>
          (case logDataAccess ''DATA_ACCESS_ERROR'' (getTableName key) userId w1 of
             (Inl e2, w2) \<Rightarrow> (Inl e2, w2)
           | (Inr _, w2) \<Rightarrow> (Inl error, w2)))"

definition supabaseSet_try ::
  "string \<Rightarrow> json \<Rightarrow> string \<Rightarrow> world \<Rightarrow> (jserror + unit) \<times> world"
where
  "supabaseSet_try key data userId w =
     (case logDataAccess ''DATA_MODIFY'' (getTableName key) userId w of
        (Inl e, w1) \<Rightarrow> (Inl e, w1)
      | (Inr _, w1) \<Rightarrow>
          (case remoteStore key data userId w1 of
             (Inl e, w2) \<Rightarrow> (Inl e, w2)
           | (Inr _, w2) \<Rightarrow> (Inr (), updateSyncStatus (getTableName key) userId ''completed'' w2)))"

definition supabaseSet :: "string \<Rightarrow> json \<Rightarrow> string \<Rightarrow> world \<Rightarrow> (jserror + unit) \<times> world" where
  "supabaseSet key data userId w =
     (case supabaseSet_try key data userId (emit (RemoteSet key data userId) w) of
        (Inr u, w1) \<Rightarrow> (Inr u, w1)
      | (Inl error, w1) \<Rightarrow>
          (case logDataAccess ''DATA_MODIFY_ERROR'' (getTableName key) userId w1 of
             (Inl e2, w2) \<Rightarrow> (Inl e2, w2)
           | (Inr _, w2) \<Rightarrow>
               (Inl error, updateSyncStatus (getTableName key) userId ''failed'' w2)))"

definition supabaseRemove_try :: "string \<Rightarrow> string \<Rightarrow> world \<Rightarrow> (jserror + unit) \<times> world" where
  "supabaseRemove_try key userId w =
     (case logDataAccess ''DATA_DELETE'' (getTableName key) userId w of
        (Inl e, w1) \<Rightarrow> (Inl e, w1)
      | (Inr _, w1) \<Rightarrow>
          (case remoteSoftDelete key userId w1 of
             (Inl e, w2) \<Rightarrow> (Inl e, w2)
           | (Inr _, w2) \<Rightarrow> (Inr (), updateSyncStatus (getTableName key) userId ''completed'' w2)))"

definition supabaseRemove :: "string \<Rightarrow> string \<Rightarrow> world \<Rightarrow> (jserror + unit) \<times> world" where
  "supabaseRemove key userId w =
     (case supabaseRemove_try key userId (emit (RemoteRemove key userId) w) of
        (Inr u, w1) \<Rightarrow> (Inr u, w1)
      | (Inl error, w1) \<Rightarrow>
          (case logDataAccess ''DATA_DELETE_ERROR'' (getTableName key) userId w1 of
             (Inl e2, w2) \<Rightarrow> (Inl e2, w2)
           | (Inr _, w2) \<Rightarrow> (Inl error, w2)))"

section \<open>Hybrid Storage Coordinator (HybridDataService in dataService.ts)\<close>

text \<open>The test of both \<open>catch\<close> blocks for a critical authentication error.\<close>

definition criticalAuthError :: "jserror \<Rightarrow> bool" where
  "criticalAuthError error =
     (instanceofError error \<and>
      (includesStr (errorMessage error) ''Session user ID mismatch'' \<or>
       includesStr (errorMessage error) ''Invalid userId''))"

definition getData_try :: "string \<Rightarrow> string \<Rightarrow> world \<Rightarrow> (jserror + json) \<times> world" where
  "getData_try key userId w =
     (if hdsOnline w then
        (case supabaseGet key userId w of
           (Inl e, w1) \<Rightarrow> (Inl e, w1)
         | (Inr supabaseData, w1) \<Rightarrow>
             if supabaseData \<noteq> JNull then
               (case storageSet key supabaseData w1 of
                  (Inl e, w2) \<Rightarrow> (Inl e, w2)
                | (Inr _, w2) \<Rightarrow> (Inr supabaseData, w2))
             else (case storageGet key w1 of (v, w2) \<Rightarrow> (Inr v, w2)))
      else (case storageGet key w of (v, w1) \<Rightarrow> (Inr v, w1)))"

definition getData :: "string \<Rightarrow> string \<Rightarrow> world \<Rightarrow> (jserror + json) \<times> world" where
  "getData key userId w =
     (if invalidUserId userId
      then (Inl (JsError (''Invalid userId provided for getData: '' @ userId)), w)
      else case getData_try key userId w of
             (Inr v, w1) \<Rightarrow> (Inr v, w1)
           | (Inl error, w1) \<Rightarrow>
               if criticalAuthError error then (Inl error, w1)
               else (case storageGet key w1 of (v, w2) \<Rightarrow> (Inr v, w2)))"

text \<open>
  \<open>Array.from(new Set(xs))\<close>: the first occurrence of every element, in order.  A set
  compares strings, numbers, booleans and \<open>null\<close> by value and objects by identity; the
  objects and arrays in different places of a list are different objects.
\<close>

fun isPrimitive :: "json \<Rightarrow> bool" where
  "isPrimitive (JArr xs) = False"
| "isPrimitive (JObj kvs) = False"
| "isPrimitive v = True"

definition sameValueZero :: "json \<Rightarrow> json \<Rightarrow> bool" where
  "sameValueZero a b = (isPrimitive a \<and> a = b)"

fun uniqueInOrder :: "json list \<Rightarrow> json list" where
  "uniqueInOrder [] = []"
| "uniqueInOrder (x # xs) = x # uniqueInOrder (filter (\<lambda>y. \<not> sameValueZero x y) xs)"

definition getDataSafe :: "string \<Rightarrow> string \<Rightarrow> json \<Rightarrow> world \<Rightarrow> (jserror + json) \<times> world" where
  "getDataSafe key userId defaultValue w =
     (case getData key userId w of
        (Inr data, w1) \<Rightarrow>
          (case (data, defaultValue) of
             (JArr d, JArr dv) \<Rightarrow>
               if key = ''skillsList''
               then (if length d = 0 then (Inr defaultValue, w1)
                     else (Inr (JArr (uniqueInOrder (dv @ d))), w1))
               else (Inr data, w1)
           | _ \<Rightarrow> (Inr (if data = JNull then defaultValue else data), w1))
      | (Inl error, w1) \<Rightarrow>
          if criticalAuthError error then (Inl error, w1) else (Inr defaultValue, w1))"

definition queueForSync :: "string \<Rightarrow> json \<Rightarrow> string \<Rightarrow> world \<Rightarrow> world" where
  "queueForSync key data userId w =
     (let w1 = emit (QueuedForSync key userId) w
      in w1\<lparr>syncQueue :=
              map_set (userId @ '':'' @ key)
                \<lparr>queuedKey = key, queuedData = data, queuedUserId = userId,
                 queuedTimestamp = clockMs w1\<rparr>
                (syncQueue w1)\<rparr>)"

text \<open>The \<open>catch\<close> block of \<open>setData\<close> and its offline branch do the same.\<close>

definition cacheAndQueue ::
  "string \<Rightarrow> json \<Rightarrow> string \<Rightarrow> world \<Rightarrow> (jserror + unit) \<times> world"
where
  "cacheAndQueue key data userId w =
     (case storageSet key data w of
        (Inl e, w1) \<Rightarrow> (Inl e, w1)
      | (Inr _, w1) \<Rightarrow> (Inr (), queueForSync key data userId w1))"

definition setData :: "string \<Rightarrow> json \<Rightarrow> string \<Rightarrow> world \<Rightarrow> (jserror + unit) \<times> world" where
  "setData key data userId w =
     (if hdsOnline w then
        (case supabaseSet key data userId w of
           (Inl error, w1) \<Rightarrow> cacheAndQueue key data userId w1
         | (Inr _, w1) \<Rightarrow>
             (case storageSet key data w1 of
                (Inl error, w2) \<Rightarrow> cacheAndQueue key data userId w2
              | (Inr _, w2) \<Rightarrow> (Inr (), w2)))
      else cacheAndQueue key data userId w)"

definition removeData :: "string \<Rightarrow> string \<Rightarrow> world \<Rightarrow> (jserror + unit) \<times> world" where
  "removeData key userId w =
     (let w1 = storageRemove key w
      in if hdsOnline w1 then (Inr (), snd (supabaseRemove key userId w1)) else (Inr (), w1))"

section \<open>Reconciliation Engine and Offline Change Queue (SyncService in syncService.ts)\<close>

record SyncResult =
  success :: "string list"
  failed :: "(string \<times> string) list"
  conflicts :: "SyncConflict list"
  totalSynced :: nat
  resultLastSyncTime :: string
  syncDuration :: int

definition epochISO :: string where
  "epochISO = ''1970-01-01T00:00:00.000Z''"

definition notifySync :: "SyncStatus \<Rightarrow> world \<Rightarrow> world" where
  "notifySync status w = emit (Notify status) w"

definition syncTableMap :: "(string \<times> string) list" where
  "syncTableMap =
     [(''goals'', ''user_goals''), (''achievements'', ''user_achievements''),
      (''skills'', ''user_skills''), (''skillsList'', ''user_skills''),
      (''calendarNotes'', ''user_calendar_notes''), (''symptoms'', ''user_symptoms''),
      (''wordFiles'', ''user_word_files''), (''username'', ''user_profiles''),
      (''favorites'', ''user_profiles''), (''points'', ''user_profiles'')]"

definition syncTableName :: "string \<Rightarrow> string" where
  "syncTableName key = (case map_of syncTableMap key of Some t \<Rightarrow> t | None \<Rightarrow> ''user_profiles'')"

text \<open>\<open>Math.abs(localTime.getTime() - remoteTime.getTime())\<close>; \<open>None\<close> is \<open>NaN\<close>.\<close>

definition timeDiff :: "platform \<Rightarrow> string \<Rightarrow> string \<Rightarrow> int option" where
  "timeDiff pf localTs remoteTs =
     (case (dateMs pf localTs, dateMs pf remoteTs) of
        (Some l, Some r) \<Rightarrow> Some \<bar>l - r\<bar>
      | _ \<Rightarrow> None)"

definition detectConflict ::
  "platform \<Rightarrow> string \<Rightarrow> json \<Rightarrow> json \<Rightarrow> string \<Rightarrow> string \<Rightarrow> SyncConflict option"
where
  "detectConflict pf key localD remoteD localTs remoteTs =
     (if JSON_stringify localD \<noteq> JSON_stringify remoteD then
        Some \<lparr> conflictKey = key, conflictTable = syncTableName key,
               localData = localD, remoteData = remoteD,
               localTimestamp = localTs, remoteTimestamp = remoteTs,
               conflictType =
                 (case timeDiff pf localTs remoteTs of
                    Some d \<Rightarrow> if d < 60000 then ConcurrentEdit else UpdateConflict
                  | None \<Rightarrow> UpdateConflict) \<rparr>
      else None)"

text \<open>\<open>localTime >= remoteTime\<close> on two dates: false as soon as one of them is invalid.\<close>

definition dateGreaterEq :: "platform \<Rightarrow> string \<Rightarrow> string \<Rightarrow> bool" where
  "dateGreaterEq pf a b =
     (case (dateMs pf a, dateMs pf b) of (Some x, Some y) \<Rightarrow> x \<ge> y | _ \<Rightarrow> False)"

text \<open>The winner the \<open>switch\<close> of \<open>resolveConflict\<close> picks; nothing under the manual policy.\<close>

definition winningSide :: "platform \<Rightarrow> ConflictResolution \<Rightarrow> SyncConflict \<Rightarrow> (json \<times> string) option" where
  "winningSide pf policy conflict =
     (case policy of
        LocalWins \<Rightarrow> Some (localData conflict, localTimestamp conflict)
      | RemoteWins \<Rightarrow> Some (remoteData conflict, remoteTimestamp conflict)
      | LatestTimestamp \<Rightarrow>
          if dateGreaterEq pf (localTimestamp conflict) (remoteTimestamp conflict)
          then Some (localData conflict, localTimestamp conflict)
          else Some (remoteData conflict, remoteTimestamp conflict)
      | Manual \<Rightarrow> None)"

definition timestampKey :: "string \<Rightarrow> string" where
  "timestampKey key = key @ ''_timestamp''"

definition resolveConflict :: "platform \<Rightarrow> SyncConflict \<Rightarrow> string \<Rightarrow> world \<Rightarrow> bool \<times> world" where
  "resolveConflict pf conflict userId w =
     (case winningSide pf (conflictResolution (syncSettings w)) conflict of
        None \<Rightarrow> (False, w)
      | Some (winningData, winningTimestamp) \<Rightarrow>
          (case setData (conflictKey conflict) winningData userId w of
             (Inl error, w1) \<Rightarrow> (False, w1)
           | (Inr _, w1) \<Rightarrow>
               (case storageSet (timestampKey (conflictKey conflict)) (JStr winningTimestamp) w1 of
                  (Inl error, w2) \<Rightarrow> (False, w2)
                | (Inr _, w2) \<Rightarrow> (True, w2))))"

definition getRemoteData :: "string \<Rightarrow> string \<Rightarrow> world \<Rightarrow> json \<times> world" where
  "getRemoteData key userId w =
     (case getData key userId w of
        (Inr v, w1) \<Rightarrow> (v, w1)
      | (Inl error, w1) \<Rightarrow> (JNull, w1))"

definition getRemoteTimestamp :: "string \<Rightarrow> string \<Rightarrow> world \<Rightarrow> string" where
  "getRemoteTimestamp key userId w =
     (case remoteFault w SelectSyncStatus key of
        Some error \<Rightarrow> epochISO
      | None \<Rightarrow>
          (case filter (\<lambda>r. statusUser r = userId \<and> statusTable r = syncTableName key)
                  (syncStatusRows w) of
             [data] \<Rightarrow> last_sync_at data
           | _ \<Rightarrow> epochISO))"

definition pullData :: "string \<Rightarrow> json \<Rightarrow> string \<Rightarrow> world \<Rightarrow> (jserror + unit) \<times> world" where
  "pullData key data ts w =
     (case storageSet key data w of
        (Inl e, w1) \<Rightarrow> (Inl e, w1)
      | (Inr _, w1) \<Rightarrow> storageSet (timestampKey key) (JStr ts) w1)"

definition pushData :: "string \<Rightarrow> json \<Rightarrow> string \<Rightarrow> world \<Rightarrow> (jserror + unit) \<times> world" where
  "pushData key data userId w =
     (case setData key data userId w of
        (Inl e, w1) \<Rightarrow> (Inl e, w1)
      | (Inr _, w1) \<Rightarrow> storageSet (timestampKey key) (JStr (clockISO w1)) w1)"

text \<open>
  \<open>syncDataType\<close> first reads both sides: the local value and its timestamp entry (the
  epoch when the entry is no string), then the remote value and timestamp.
\<close>

definition readBothSides ::
  "string \<Rightarrow> string \<Rightarrow> world \<Rightarrow> (json \<times> string \<times> json \<times> string) \<times> world"
where
  "readBothSides dataType userId w =
     (case storageGet dataType w of (localD, w1) \<Rightarrow>
      case storageGet (timestampKey dataType) w1 of (localTimestampRaw, w2) \<Rightarrow>
      let localTs = (case localTimestampRaw of JStr s \<Rightarrow> s | _ \<Rightarrow> epochISO) in
      case getRemoteData dataType userId w2 of (remoteD, w3) \<Rightarrow>
      let remoteTs = getRemoteTimestamp dataType userId w3 in
      ((localD, localTs, remoteD, remoteTs), w3))"

text \<open>
  The rest of \<open>syncDataType\<close>.  The result is the thrown error, or the pair of the
  \<open>success\<close> flag and the conflict of the returned object.
\<close>

definition syncDataType ::
  "platform \<Rightarrow> string \<Rightarrow> string \<Rightarrow> world \<Rightarrow> (jserror + bool \<times> SyncConflict option) \<times> world"
where
  "syncDataType pf dataType userId w =
     (case readBothSides dataType userId w of ((localD, localTs, remoteD, remoteTs), w3) \<Rightarrow>
      if localD = JNull then
        (if remoteD \<noteq> JNull then
           (case setData dataType remoteD userId w3 of
              (Inl e, w4) \<Rightarrow> (Inl e, w4)
            | (Inr _, w4) \<Rightarrow>
                (case storageSet (timestampKey dataType) (JStr remoteTs) w4 of
                   (Inl e, w5) \<Rightarrow> (Inl e, w5)
                 | (Inr _, w5) \<Rightarrow> (Inr (True, None), w5)))
         else (Inr (True, None), w3))
      else if remoteD = JNull then
        (case setData dataType localD userId w3 of
           (Inl e, w4) \<Rightarrow> (Inl e, w4)
         | (Inr _, w4) \<Rightarrow>
             (case storageSet (timestampKey dataType) (JStr (clockISO w4)) w4 of
                (Inl e, w5) \<Rightarrow> (Inl e, w5)
              | (Inr _, w5) \<Rightarrow> (Inr (True, None), w5)))
      else
        (case detectConflict pf dataType localD remoteD localTs remoteTs of
           Some conflict \<Rightarrow>
             if conflictResolution (syncSettings w3) \<noteq> Manual then
               (case resolveConflict pf conflict userId w3 of
                  (True, w4) \<Rightarrow> (Inr (True, None), w4)
                | (False, w4) \<Rightarrow> (Inr (False, Some conflict), w4))
             else (Inr (False, Some conflict), w3)
         | None \<Rightarrow>
             if localTs < remoteTs then
               (case pullData dataType remoteD remoteTs w3 of
                  (Inl e, w4) \<Rightarrow> (Inl e, w4)
                | (Inr _, w4) \<Rightarrow> (Inr (True, None), w4))
             else if localTs > remoteTs then
               (case pushData dataType localD userId w3 of
                  (Inl e, w4) \<Rightarrow> (Inl e, w4)
                | (Inr _, w4) \<Rightarrow> (Inr (True, None), w4))
             else (Inr (True, None), w3)))"

definition dataTypes :: "string list" where
  "dataTypes =
     [''username'', ''points'', ''favorites'', ''goals'', ''achievements'', ''skills'',
      ''skillsList'', ''calendarNotes'', ''symptoms'', ''wordFiles'']"

definition prioritizeHealthcareData :: "string list \<Rightarrow> string list" where
  "prioritizeHealthcareData types =
     (let healthcareTypes = [''symptoms'', ''calendarNotes'', ''goals''];
          regularTypes = filter (\<lambda>t. t \<notin> set healthcareTypes) types
      in filter (\<lambda>t. t \<in> set types) healthcareTypes @ regularTypes)"

text \<open>
  One element of a batch: the callback given to \<open>batch.map\<close>.  The callbacks of a batch
  run interleaved in the source; the model runs them one after the other.
\<close>

definition syncOne ::
  "platform \<Rightarrow> string \<Rightarrow> string \<Rightarrow> SyncResult \<times> world \<Rightarrow> SyncResult \<times> world"
where
  "syncOne pf userId dataType rw =
     (case rw of (results, w) \<Rightarrow>
      case syncDataType pf dataType userId w of
        (Inr (ok, Some conflict), w1) \<Rightarrow>
          (results\<lparr>conflicts := conflicts results @ [conflict]\<rparr>, w1)
      | (Inr (ok, None), w1) \<Rightarrow>
          (results\<lparr>success := success results @ [dataType],
                    totalSynced := totalSynced results + 1\<rparr>, w1)
      | (Inl error, w1) \<Rightarrow>
          (results\<lparr>failed := failed results @
                      [(dataType, if instanceofError error then errorMessage error
                                  else ''Unknown error'')]\<rparr>, w1))"

text \<open>The loop \<open>for (let i = 0; i < length; i += batchSize)\<close>, for a positive batch size.\<close>

function syncBatches ::
  "platform \<Rightarrow> string list \<Rightarrow> nat \<Rightarrow> string \<Rightarrow> nat \<Rightarrow> SyncResult \<times> world \<Rightarrow> SyncResult \<times> world"
where
  "syncBatches pf types bsize userId i rw =
     (if i < length types \<and> 0 < bsize
      then syncBatches pf types bsize userId (i + bsize)
             (fold (syncOne pf userId) (take bsize (drop i types)) rw)
      else rw)"
  by pat_completeness auto
termination
  by (relation "measure (\<lambda>(pf, types, bsize, userId, i, rw). length types - i)") auto

declare syncBatches.simps [simp del]

text \<open>
  \<open>syncAllDataTypes\<close>.  With a batch size of 0 the loop never advances and the call does
  not return: the result is \<open>None\<close>.
\<close>

definition syncAllDataTypes :: "platform \<Rightarrow> string \<Rightarrow> world \<Rightarrow> (SyncResult \<times> world) option" where
  "syncAllDataTypes pf userId w =
     (let prioritizedTypes =
            (if healthcareDataPriority (syncSettings w) then prioritizeHealthcareData dataTypes
             else dataTypes);
          results = \<lparr> success = [], failed = [], conflicts = [], totalSynced = 0,
                      resultLastSyncTime = [], syncDuration = 0 \<rparr>
      in if batchSize (syncSettings w) = 0 then None
         else Some (syncBatches pf prioritizedTypes (batchSize (syncSettings w)) userId 0
                      (results, w)))"

subsection \<open>Offline Change Queue\<close>

text \<open>
  The two updates by which the drain records the outcome of a replay.  The reply of the
  database is not looked at: when it refuses the update, the row stays as it was.
\<close>

definition markProcessed :: "string \<Rightarrow> world \<Rightarrow> world" where
  "markProcessed cid w =
     (let w1 = emit (ReplayProcessed cid) w
      in case remoteFault w UpdateQueue cid of
           Some error \<Rightarrow> w1
         | None \<Rightarrow>
             w1\<lparr>offlineQueue :=
                  map (\<lambda>c. if changeId c = cid
                            then c\<lparr>processed := True, processed_at := Some (clockISO w1)\<rparr>
                            else c)
                    (offlineQueue w1)\<rparr>)"

definition recordFailure :: "string \<Rightarrow> string \<Rightarrow> world \<Rightarrow> world" where
  "recordFailure cid msg w =
     (let w1 = emit (ReplayFailed cid msg) w
      in case remoteFault w UpdateQueue cid of
           Some error \<Rightarrow> w1
         | None \<Rightarrow>
             w1\<lparr>offlineQueue :=
                  map (\<lambda>c. if changeId c = cid then c\<lparr>error_message := Some msg\<rparr> else c)
                    (offlineQueue w1)\<rparr>)"

text \<open>\<open>error instanceof Error ? error.message : String(error)\<close>, for a thrown object.\<close>

definition thrownText :: "jserror \<Rightarrow> string" where
  "thrownText error = (if instanceofError error then errorMessage error else ''[object Object]'')"

text \<open>
  The replay of one change.  \<open>encryptionService.decrypt\<close> is called without \<open>await\<close>, so
  what \<open>replayCall\<close> hands to \<open>setData\<close> is the promise.
\<close>

definition replayCall :: "string \<Rightarrow> OfflineChange \<Rightarrow> world \<Rightarrow> (jserror + unit) \<times> world" where
  "replayCall userId change w =
     (let key = replaceFirst (table_name change) ''user_'' ''''
      in case operation change of
           Insert \<Rightarrow> setData key unawaitedPromise userId w
         | Update \<Rightarrow> setData key unawaitedPromise userId w
         | Delete \<Rightarrow> removeData key userId w)"

definition replayChange :: "string \<Rightarrow> OfflineChange \<Rightarrow> world \<Rightarrow> world" where
  "replayChange userId change w =
     (case replayCall userId change (emit (ReplayAttempt (changeId change)) w) of
        (Inr _, w2) \<Rightarrow> markProcessed (changeId change) w2
      | (Inl error, w2) \<Rightarrow> recordFailure (changeId change) (thrownText error) w2)"

text \<open>
  The rows that the select of \<open>processOfflineQueue\<close> returns, ordered by \<open>queued_at\<close>
  (rows queued at the same time in the order of the table).
\<close>

definition pendingChanges :: "string \<Rightarrow> world \<Rightarrow> OfflineChange list" where
  "pendingChanges userId w =
     sort_key queued_at
       (filter (\<lambda>c. changeUserId c = userId \<and> \<not> processed c) (offlineQueue w))"

definition processOfflineQueue :: "string \<Rightarrow> world \<Rightarrow> world" where
  "processOfflineQueue userId w =
     (case remoteFault w SelectQueue [] of
        Some e \<Rightarrow> w
      | None \<Rightarrow> fold (replayChange userId) (pendingChanges userId w) w)"

subsection \<open>A sync run\<close>

definition saveSyncState :: "string \<Rightarrow> world \<Rightarrow> (jserror + unit) \<times> world" where
  "saveSyncState userId w =
     storageSet ''sync_state''
       (JObj ((case lastSyncTime w of None \<Rightarrow> [] | Some t \<Rightarrow> [(''lastSyncTime'', JStr t)]) @
              [(''userId'', JStr userId),
               (''pendingConflicts'', JNum (int (length (pendingConflicts w))))]))
       w"

definition storeConflicts :: "SyncConflict list \<Rightarrow> world \<Rightarrow> world" where
  "storeConflicts cs w =
     (if cs \<noteq> [] then
        notifySync Conflict
          (w\<lparr>pendingConflicts := fold (\<lambda>c m. map_set (conflictKey c) c m) cs [],
             syncStatus := Conflict\<rparr>)
      else notifySync Idle (w\<lparr>syncStatus := Idle\<rparr>))"

text \<open>
  \<open>performSync\<close> up to its first \<open>await\<close>: the two guards, then the status is set and the
  listeners are told.  This part runs without interruption; the call is then suspended,
  and other calls of the service may run before it goes on.
\<close>

definition performSync_begin :: "world \<Rightarrow> (jserror + unit) \<times> world" where
  "performSync_begin w =
     (if \<not> syncOnline w then (Inl (JsError ''Cannot sync while offline''), w)
      else if syncStatus w = Syncing then (Inl (JsError ''Sync already in progress''), w)
      else (Inr (), notifySync Syncing (w\<lparr>syncStatus := Syncing\<rparr>)))"

text \<open>The body of the \<open>try\<close> of \<open>performSync\<close>.\<close>

definition performSync_try ::
  "platform \<Rightarrow> string option \<Rightarrow> world \<Rightarrow> ((jserror + SyncResult) \<times> world) option"
where
  "performSync_try pf userId w =
     (case sessionUser w of
        Inl e \<Rightarrow> Some (Inl e, w)
      | Inr user \<Rightarrow>
          (case (if userId \<noteq> None \<and> userId \<noteq> Some [] then userId else user) of
             None \<Rightarrow> Some (Inl (JsError ''No authenticated user found''), w)
           | Some currentUserId \<Rightarrow>
               if currentUserId = [] then Some (Inl (JsError ''No authenticated user found''), w)
               else
                 (case syncAllDataTypes pf currentUserId (processOfflineQueue currentUserId w) of
                    None \<Rightarrow> None
                  | Some (syncResult, w1) \<Rightarrow>
                      (let w2 = storeConflicts (conflicts syncResult) w1;
                           w3 = w2\<lparr>lastSyncTime := Some (clockISO w2)\<rparr>
                       in case saveSyncState currentUserId w3 of
                            (Inl e, w4) \<Rightarrow> Some (Inl e, w4)
                          | (Inr _, w4) \<Rightarrow>
                              Some (Inr (syncResult\<lparr>syncDuration := 0,
                                                     resultLastSyncTime := clockISO w4\<rparr>),
                                    w4)))))"

text \<open>The rest of \<open>performSync\<close>, from the first \<open>await\<close> on: the \<open>try\<close> and its \<open>catch\<close>.\<close>

definition performSync_rest ::
  "platform \<Rightarrow> string option \<Rightarrow> world \<Rightarrow> ((jserror + SyncResult) \<times> world) option"
where
  "performSync_rest pf userId w =
     (case performSync_try pf userId w of
        None \<Rightarrow> None
      | Some (Inr result, w1) \<Rightarrow> Some (Inr result, w1)
      | Some (Inl error, w1) \<Rightarrow>
          Some (Inl error, notifySync SyncError (w1\<lparr>syncStatus := SyncError\<rparr>)))"

text \<open>A call of \<open>performSync\<close> that nothing interrupts.\<close>

definition performSync ::
  "platform \<Rightarrow> string option \<Rightarrow> world \<Rightarrow> ((jserror + SyncResult) \<times> world) option"
where
  "performSync pf userId w =
     (case performSync_begin w of
        (Inl error, w1) \<Rightarrow> Some (Inl error, w1)
      | (Inr _, w1) \<Rightarrow> performSync_rest pf userId w1)"

subsection \<open>Manual resolution\<close>

datatype Resolution = UseLocal | UseRemote | Merge

text \<open>
  The body of the \<open>try\<close> of \<open>resolveConflictManually\<close>; \<open>mergedData\<close> is \<open>None\<close> when the
  caller passes none.  \<open>Inl\<close> is a throw, which the \<open>catch\<close> turns into the answer
  \<open>false\<close>.
\<close>

definition resolveConflictManually_try ::
  "SyncConflict \<Rightarrow> string \<Rightarrow> Resolution \<Rightarrow> json option \<Rightarrow> world \<Rightarrow> (jserror + unit) \<times> world"
where
  "resolveConflictManually_try conflict key resolution mergedData w =
     (case sessionUser w of
        Inl e \<Rightarrow> (Inl e, w)
      | Inr None \<Rightarrow> (Inl (JsError ''No authenticated user''), w)
      | Inr (Some user) \<Rightarrow>
          (let timestamp = clockISO w;
               finalData =
                 (case resolution of
                    UseLocal \<Rightarrow> Inr (localData conflict)
                  | UseRemote \<Rightarrow> Inr (remoteData conflict)
                  | Merge \<Rightarrow>
                      (case mergedData of
                         None \<Rightarrow> Inl (JsError ''Merged data required for merge resolution'')
                       | Some m \<Rightarrow>
                           if truthy m then Inr m
                           else Inl (JsError ''Merged data required for merge resolution'')))
           in case finalData of
                Inl e \<Rightarrow> (Inl e, w)
              | Inr v \<Rightarrow>
                  (case setData (conflictKey conflict) v user w of
                     (Inl e, w1) \<Rightarrow> (Inl e, w1)
                   | (Inr _, w1) \<Rightarrow>
                       (case storageSet (timestampKey (conflictKey conflict)) (JStr timestamp) w1 of
                          (Inl e, w2) \<Rightarrow> (Inl e, w2)
                        | (Inr _, w2) \<Rightarrow>
                            (let w3 = w2\<lparr>pendingConflicts := map_delete key (pendingConflicts w2)\<rparr>
                             in if pendingConflicts w3 = []
                                then (Inr (), notifySync Idle (w3\<lparr>syncStatus := Idle\<rparr>))
                                else (Inr (), w3))))))"

definition resolveConflictManually ::
  "string \<Rightarrow> Resolution \<Rightarrow> json option \<Rightarrow> world \<Rightarrow> (jserror + bool) \<times> world"
where
  "resolveConflictManually key resolution mergedData w =
     (case map_of (pendingConflicts w) key of
        None \<Rightarrow> (Inl (JsError (''No pending conflict found for key: '' @ key)), w)
      | Some conflict \<Rightarrow>
          (case resolveConflictManually_try conflict key resolution mergedData w of
             (Inr _, w1) \<Rightarrow> (Inr True, w1)
           | (Inl error, w1) \<Rightarrow> (Inr False, w1)))"

section \<open>Observations on the trace\<close>

text \<open>
  The steps of a drain of the Offline Change Queue, read off the trace: the start of a
  replay, and the update that records the replayed change as processed, or as failed with
  a message.
\<close>

datatype replay_step =
    Attempted string
  | RecordedProcessed string
  | RecordedFailed string string

fun replaySteps :: "event list \<Rightarrow> replay_step list" where
  "replaySteps [] = []"
| "replaySteps (ReplayAttempt cid # es) = Attempted cid # replaySteps es"
| "replaySteps (ReplayProcessed cid # es) = RecordedProcessed cid # replaySteps es"
| "replaySteps (ReplayFailed cid msg # es) = RecordedFailed cid msg # replaySteps es"
| "replaySteps (e # es) = replaySteps es"




text \<open>
  \<open>traceOnly\<close>: a step that changes nothing but the trace, and replays nothing.
  \<open>remoteOnly\<close>: the same, except that the rows of the data tables and of \<open>sync_status\<close>
  may change.  \<open>quiet\<close>: a step during which nothing is replayed.
\<close>

definition traceOnly :: "world \<Rightarrow> world \<Rightarrow> bool" where
  "traceOnly w w' = (\<exists>evs. w' = w\<lparr>trace := trace w @ evs\<rparr> \<and> replaySteps evs = [])"

definition remoteOnly :: "world \<Rightarrow> world \<Rightarrow> bool" where
  "remoteOnly w w' =
     (localStorage w' = localStorage w \<and> localFault w' = localFault w \<and>
      remoteFault w' = remoteFault w \<and>
      offlineQueue w' = offlineQueue w \<and> sessionUser w' = sessionUser w \<and>
      encryptionEnv w' = encryptionEnv w \<and> hostPlatform w' = hostPlatform w \<and>
      hdsOnline w' = hdsOnline w \<and> syncQueue w' = syncQueue w \<and>
      syncSettings w' = syncSettings w \<and> syncStatus w' = syncStatus w \<and>
      lastSyncTime w' = lastSyncTime w \<and> syncOnline w' = syncOnline w \<and>
      pendingConflicts w' = pendingConflicts w \<and> clockISO w' = clockISO w \<and>
      clockMs w' = clockMs w \<and>
      (\<exists>evs. trace w' = trace w @ evs \<and> replaySteps evs = []))"

definition quiet :: "world \<Rightarrow> world \<Rightarrow> bool" where
  "quiet w w' = (\<exists>evs. trace w' = trace w @ evs \<and> replaySteps evs = [])"

text \<open>\<open>sameQueue\<close>: a step that leaves the queue and the faults of the database alone.\<close>

definition sameQueue :: "world \<Rightarrow> world \<Rightarrow> bool" where
  "sameQueue w w' = (offlineQueue w' = offlineQueue w \<and> remoteFault w' = remoteFault w)"

section \<open>Example states\<close>

text \<open>A service whose two validation strategies both throw, registered out of priority order.\<close>

definition failing :: "string \<Rightarrow> errctx option \<Rightarrow> jserror + json" where
  "failing e c = Inl (JsError ''handler failed'')"

definition demoService :: ErrorHandlingService where
  "demoService =
     \<lparr> errorLog = [], 
       fallbackStrategies =
         [\<lparr>name = ''second'', strategyCategory = Validation, handler = failing,
            canRetry = False, strategyMaxRetries = 0, priority = 2\<rparr>,
          \<lparr>name = ''other'', strategyCategory = Network, handler = (\<lambda>e c. Inr JNull),
            canRetry = False, strategyMaxRetries = 0, priority = 0\<rparr>,
          \<lparr>name = ''first'', strategyCategory = Validation, handler = failing,
            canRetry = True, strategyMaxRetries = 2, priority = 1\<rparr>],
       ehOnline = True, maxLogSize = 1000, retryQueue = [], savedLog = [], events = [] \<rparr>"

definition defaultSettings :: SyncSettings where
  "defaultSettings =
     \<lparr> autoSync = True, syncInterval = 300000, conflictResolution = LatestTimestamp,
       settingsMaxRetries = 3, batchSize = 5, healthcareDataPriority = True \<rparr>"

text \<open>A platform that knows three dates and parses one text.\<close>

definition noteA :: json where
  "noteA = JObj [(''text'', JStr ''A'')]"

definition noteB :: json where
  "noteB = JObj [(''text'', JStr ''B'')]"

definition examplePlatform :: platform where
  "examplePlatform =
     \<lparr> dateMs = map_of [(''2025-01-15T09:00:00.000Z'', 1736931600000),
                        (''2025-01-15T10:00:00.000Z'', 1736935200000),
                        (''2025-01-15T10:00:40.000Z'', 1736935240000)],
       JSON_parse = (\<lambda>s. if s = JSON_stringify noteA then Inr noteA
                          else Inl (JsError ''SyntaxError'')) \<rparr>"

definition unauthenticatedEnv :: encryption_env where
  "unauthenticatedEnv =
     \<lparr> currentSession = None,
       encrypt_data = (\<lambda>text k. RpcError ''not available''),
       decrypt_data = (\<lambda>text k. RpcError ''not available''),
       nodeEnv = ''test'' \<rparr>"

text \<open>
  The encryption service of a signed-in user in a development setup, where the two
  server-side procedures answer with an error.
\<close>

definition developmentEnv :: encryption_env where
  "developmentEnv =
     \<lparr> currentSession = Some ''user-1'',
       encrypt_data = (\<lambda>text k. RpcError ''function not found''),
       decrypt_data = (\<lambda>text k. RpcError ''function not found''),
       nodeEnv = ''development'' \<rparr>"

text \<open>User 1 is signed in and online; both stores are empty and every request is answered.\<close>

definition baseWorld :: world where
  "baseWorld =
     \<lparr> localStorage = Map.empty, localFault = (\<lambda>k. None),
       remoteDb = (\<lambda>table. []), remoteFault = (\<lambda>opn k. None),
       syncStatusRows = [], offlineQueue = [],
       sessionUser = Inr (Some ''user-1''),
       encryptionEnv = developmentEnv, hostPlatform = examplePlatform,
       hdsOnline = True, syncQueue = [],
       syncSettings = defaultSettings, syncStatus = Idle, lastSyncTime = None,
       syncOnline = True, pendingConflicts = [],
       clockISO = ''2025-01-15T10:00:00.000Z'', clockMs = 1736935200000, trace = [] \<rparr>"

text \<open>
  The points differ: the device holds 150, written 40 seconds after the 120 of the
  profile row, whose table was last synchronised at ten o'clock.
\<close>

definition profileRow :: "int \<Rightarrow> row" where
  "profileRow n = [(''user_id'', JStr ''user-1''), (''points'', JNum n)]"

definition profileSynced :: SyncStatusRow where
  "profileSynced =
     \<lparr> statusUser = ''user-1'', statusTable = ''user_profiles'', statusValue = ''completed'',
       last_sync_at = ''2025-01-15T10:00:00.000Z'' \<rparr>"

definition pointsConflict :: SyncConflict where
  "pointsConflict =
     \<lparr> conflictKey = ''points'', conflictTable = ''user_profiles'',
       localData = JNum 150, remoteData = JNum 120,
       localTimestamp = ''2025-01-15T10:00:40.000Z'',
       remoteTimestamp = ''2025-01-15T10:00:00.000Z'',
       conflictType = ConcurrentEdit \<rparr>"

definition conflictWorld :: world where
  "conflictWorld =
     baseWorld\<lparr> localStorage := [''points'' \<mapsto> JNum 150,
                                   ''points_timestamp'' \<mapsto> JStr ''2025-01-15T10:00:40.000Z''],
                 remoteDb := (\<lambda>table. if table = ''user_profiles'' then [profileRow 120] else []),
                 syncStatusRows := [profileSynced] \<rparr>"

text \<open>The same, with a database that refuses to write the points.\<close>

definition rejectingWorld :: world where
  "rejectingWorld =
     conflictWorld\<lparr> remoteFault :=
       (\<lambda>opn k. if opn = Store \<and> k = ''points'' then Some (NonError ''permission denied'')
                 else None) \<rparr>"

text \<open>
  Both sides hold 150 points; the device's timestamp is an hour behind the one of the
  table.
\<close>

definition staleWorld :: world where
  "staleWorld =
     baseWorld\<lparr> localStorage := [''points'' \<mapsto> JNum 150,
                                   ''points_timestamp'' \<mapsto> JStr ''2025-01-15T09:00:00.000Z''],
                 remoteDb := (\<lambda>table. if table = ''user_profiles'' then [profileRow 150] else []),
                 syncStatusRows := [profileSynced] \<rparr>"

text \<open>Both sides hold 150 points with the same timestamp.\<close>

definition settledWorld :: world where
  "settledWorld =
     baseWorld\<lparr> localStorage := [''points'' \<mapsto> JNum 150,
                                   ''points_timestamp'' \<mapsto> JStr ''2025-01-15T10:00:00.000Z''],
                 remoteDb := (\<lambda>table. if table = ''user_profiles'' then [profileRow 150] else []),
                 syncStatusRows := [profileSynced] \<rparr>"

text \<open>
  An earlier run under the manual policy has left the conflict on the points pending.
\<close>

definition pendingWorld :: world where
  "pendingWorld =
     conflictWorld\<lparr> syncSettings := defaultSettings\<lparr>conflictResolution := Manual\<rparr>,
                     syncStatus := Conflict,
                     pendingConflicts := [(''points'', pointsConflict)] \<rparr>"

text \<open>
  A sync request starts in that state and is suspended at its first \<open>await\<close>; while it
  waits, the user resolves the pending conflict by hand.
\<close>

definition suspendedWorld :: world where
  "suspendedWorld = snd (performSync_begin pendingWorld)"

definition resolvedWorld :: world where
  "resolvedWorld = snd (resolveConflictManually ''points'' UseLocal None suspendedWorld)"

text \<open>
  Two queued changes of one user; the local store cannot take the goals, so that the
  replay of the first change fails.
\<close>

definition change1 :: OfflineChange where
  "change1 =
     \<lparr> changeId = ''c1'', changeUserId = ''user-1'', table_name = ''user_goals'',
       operation = Update, encrypted_data = ''fallback:W10='', queued_at = 100,
       processed = False, processed_at = None, error_message = None \<rparr>"

definition change2 :: OfflineChange where
  "change2 =
     \<lparr> changeId = ''c2'', changeUserId = ''user-1'', table_name = ''user_symptoms'',
       operation = Delete, encrypted_data = ''fallback:W10='', queued_at = 200,
       processed = False, processed_at = None, error_message = None \<rparr>"

definition queueWorld :: world where
  "queueWorld =
     baseWorld\<lparr> offlineQueue := [change2, change1],
                 localFault := (\<lambda>k. if k = ''goals'' then Some (JsError ''QuotaExceededError'')
                                     else None) \<rparr>"

text \<open>The same queue, with a database that refuses to update the row of the first change.\<close>

definition unrecordedWorld :: world where
  "unrecordedWorld =
     queueWorld\<lparr> remoteFault :=
       (\<lambda>opn k. if opn = UpdateQueue \<and> k = ''c1'' then Some (NonError ''permission denied'')
                 else None) \<rparr>"

text \<open>The session belongs to another user than the one whose goals are requested.\<close>

definition intruderWorld :: world where
  "intruderWorld =
     baseWorld\<lparr> sessionUser := Inr (Some ''user-2''),
                 localStorage := [''goals'' \<mapsto> noteA] \<rparr>"

text \<open>The database does not answer reads; the goals are cached locally.\<close>

definition unreachableWorld :: world where
  "unreachableWorld =
     baseWorld\<lparr> remoteFault := (\<lambda>opn k. if opn = Fetch then Some (NonError ''fetch failed'')
                                          else None),
                 localStorage := [''goals'' \<mapsto> noteA] \<rparr>"

text \<open>
  The device holds a skill list with one new and one default skill; the table of the
  skills has no row for the user.
\<close>

definition skillsWorld :: world where
  "skillsWorld =
     baseWorld\<lparr> localStorage := [''skillsList'' \<mapsto> JArr [JStr ''c'', JStr ''a'']] \<rparr>"

section \<open>Properties of the Error Recovery Engine\<close>


lemma triedNames_append: "triedNames (xs @ ys) = triedNames xs @ triedNames ys"
  by (induction xs rule: triedNames.induct) simp_all

lemma events_saveErrorLog: "events (saveErrorLog st) = events st"
  by (simp add: saveErrorLog_def)

lemma triedNames_logError: "triedNames (events (logError info st)) = triedNames (events st)"
  by (simp add: logError_def Let_def events_saveErrorLog triedNames_append)

lemma triedNames_notifyListeners:
  "triedNames (events (notifyListeners info st)) = triedNames (events st)"
  by (simp add: notifyListeners_def triedNames_append)

lemma fallbackStrategies_logError: "fallbackStrategies (logError info st) = fallbackStrategies st"
  by (simp add: logError_def Let_def saveErrorLog_def)

lemma fallbackStrategies_notifyListeners:
  "fallbackStrategies (notifyListeners info st) = fallbackStrategies st"
  by (simp add: notifyListeners_def)

lemma events_writeThrough: "events (writeThrough info st) = events st"
  by (simp add: writeThrough_def)

lemma tryStrategies_all_fail:
  assumes "\<forall>s \<in> set ss. isl (handler s error ctx)"
  shows "\<exists>info' st'. tryStrategies ss error ctx info st = (None, info', st') \<and>
           triedNames (events st') = triedNames (events st) @ map name ss \<and>
           severity info' = severity info \<and> message info' = message info \<and>
           category info' = category info \<and> errorId info' = errorId info"
  using assms
proof (induction ss arbitrary: info st)
  case Nil
  then show ?case by simp
next
  case (Cons s ss)
  from Cons.prems obtain e where e: "handler s error ctx = Inl e"
    by (cases "handler s error ctx") auto
  from Cons.prems have rest: "\<forall>s \<in> set ss. isl (handler s error ctx)" by simp
  let ?st1 = "st\<lparr>events := events st @ [TriedStrategy (name s)]\<rparr>"
  show ?case
  proof (cases "canRetry s \<and> retryCount info < strategyMaxRetries s")
    case True
    obtain info1 st2 where q: "queueForRetry info s ?st1 = (info1, st2)"
      by (cases "queueForRetry info s ?st1") 
    from q have i1: "info1 = info\<lparr>retryCount := retryCount info + 1\<rparr>"
      and e2: "events st2 = events st @ [TriedStrategy (name s)]"
      by (auto simp: queueForRetry_def Let_def events_writeThrough)
    from Cons.IH[OF rest, of info1 st2] e True q i1 e2 show ?thesis
      by (auto simp: triedNames_append)
  next
    case False
    from Cons.IH[OF rest, of info ?st1] e False show ?thesis
      by (auto simp: triedNames_append)
  qed
qed

text \<open>
  Claim C8.  For every category and severity, when every strategy registered for the category
  throws, \<open>handleError\<close> returns (it is a total function, so nothing is thrown) the
  escalation object that belongs to the input severity, and the handlers invoked during the
  call are exactly the strategies registered for the category, in ascending priority order.
\<close>

theorem handleError_unresolved_escalates:
  assumes "\<forall>s \<in> set (fallbackStrategies st).
             strategyCategory s = cat \<longrightarrow> isl (handler s error ctx)"
  shows "fst (handleError error cat sev ctx newId now st) =
           (case sev of
              Critical \<Rightarrow> CriticalResult error (generateRecoveryActions cat) newId
            | High \<Rightarrow> HighResult error
            | Medium \<Rightarrow> MediumResult error
            | Low \<Rightarrow> LowResult)
         \<and> triedNames (events (snd (handleError error cat sev ctx newId now st))) =
           triedNames (events st) @
           map name (sort_key priority
                      (filter (\<lambda>s. strategyCategory s = cat) (fallbackStrategies st)))"
proof -
  let ?info = "createErrorInfo error cat sev ctx newId now"
  let ?st2 = "notifyListeners ?info (logError ?info st)"
  let ?ss = "applicableStrategies cat ?st2"
  have ss: "?ss = sort_key priority (filter (\<lambda>s. strategyCategory s = cat) (fallbackStrategies st))"
    by (simp add: applicableStrategies_def fallbackStrategies_logError
        fallbackStrategies_notifyListeners)
  have "\<forall>s \<in> set ?ss. isl (handler s error ctx)"
    using assms by (simp add: ss)
  from tryStrategies_all_fail[OF this, of ?info ?st2]
  obtain info' st' where t: "tryStrategies ?ss error ctx ?info ?st2 = (None, info', st')"
    and ev: "triedNames (events st') = triedNames (events ?st2) @ map name ?ss"
    and sv: "severity info' = severity ?info" and ms: "message info' = message ?info"
    and ct: "category info' = category ?info" and ei: "errorId info' = errorId ?info"
    by blast
  have h: "handleError error cat sev ctx newId now st = (escalateError info', st')"
    using t by (simp add: handleError_def Let_def)
  have "escalateError info' =
           (case sev of
              Critical \<Rightarrow> CriticalResult error (generateRecoveryActions cat) newId
            | High \<Rightarrow> HighResult error
            | Medium \<Rightarrow> MediumResult error
            | Low \<Rightarrow> LowResult)"
    using sv ms ct ei
    by (cases sev) (simp_all add: escalateError_def handleCriticalError_def createErrorInfo_def del: generateRecoveryActions.simps)
  moreover have "triedNames (events st') = triedNames (events st) @ map name ?ss"
    using ev by (simp add: triedNames_notifyListeners triedNames_logError)
  ultimately show ?thesis using h ss by simp
qed

theorem handleError_unresolved_escalates_witness:
  "map (\<lambda>s. isl (handler s ''bad input'' None))
       (filter (\<lambda>s. strategyCategory s = Validation) (fallbackStrategies demoService))
     = [True, True]
   \<and> fst (handleError ''bad input'' Validation High None ''error_1'' 5 demoService)
     = HighResult ''bad input''
   \<and> triedNames (events (snd (handleError ''bad input'' Validation High None ''error_1'' 5
                               demoService)))
     = [''first'', ''second'']"
proof -
  have h: "\<forall>s \<in> set (fallbackStrategies demoService).
             strategyCategory s = Validation \<longrightarrow> isl (handler s ''bad input'' None)"
    by (simp add: demoService_def failing_def)
  show ?thesis
    using h handleError_unresolved_escalates[OF h, of High "''error_1''" 5]
    by (simp add: demoService_def failing_def)
qed

section \<open>Properties of the Hybrid Storage Coordinator\<close>

lemma replaySteps_append [simp]: "replaySteps (xs @ ys) = replaySteps xs @ replaySteps ys"
  by (induction xs rule: replaySteps.induct) simp_all

subsection \<open>Frame lemmas\<close>

lemma emit_fields [simp]:
  "localStorage (emit e w) = localStorage w"
  "localFault (emit e w) = localFault w"
  "remoteDb (emit e w) = remoteDb w"
  "remoteFault (emit e w) = remoteFault w"
  "syncStatusRows (emit e w) = syncStatusRows w"
  "encryptionEnv (emit e w) = encryptionEnv w"
  "hostPlatform (emit e w) = hostPlatform w"
  "lastSyncTime (emit e w) = lastSyncTime w"
  "syncOnline (emit e w) = syncOnline w"
  "offlineQueue (emit e w) = offlineQueue w"
  "sessionUser (emit e w) = sessionUser w"
  "hdsOnline (emit e w) = hdsOnline w"
  "syncQueue (emit e w) = syncQueue w"
  "syncSettings (emit e w) = syncSettings w"
  "syncStatus (emit e w) = syncStatus w"
  "pendingConflicts (emit e w) = pendingConflicts w"
  "clockISO (emit e w) = clockISO w"
  "clockMs (emit e w) = clockMs w"
  "trace (emit e w) = trace w @ [e]"
  by (simp_all add: emit_def)

subsection \<open>The table layer does not look at the trace\<close>

lemmas case_congs =
  list.case_cong option.case_cong sum.case_cong json.case_cong prod.case_cong if_cong

lemma decryptData_trace [simp]:
  "decryptData (w\<lparr>trace := t\<rparr>) v userId = decryptData w v userId"
  by (simp add: decryptData_def cong: case_congs)

lemma rows_trace [simp]:
  "goalRow (w\<lparr>trace := t\<rparr>) userId g = goalRow w userId g"
  "achievementRow (w\<lparr>trace := t\<rparr>) userId g = achievementRow w userId g"
  "datedRow (w\<lparr>trace := t\<rparr>) userId dc ec counted entry = datedRow w userId dc ec counted entry"
  "fileRow (w\<lparr>trace := t\<rparr>) userId f = fileRow w userId f"
  "writeAchievement (w\<lparr>trace := t\<rparr>) a = writeAchievement w a"
  "markReplaced (w\<lparr>trace := t\<rparr>) key table userId db = markReplaced w key table userId db"
  "upsertRequest (w\<lparr>trace := t\<rparr>) key table cols news db = upsertRequest w key table cols news db"
  "insertRequest (w\<lparr>trace := t\<rparr>) key table cols news db = insertRequest w key table cols news db"
  "readByDate (w\<lparr>trace := t\<rparr>) dc ec userId rows = readByDate w dc ec userId rows"
  by (simp_all add: goalRow_def achievementRow_def datedRow_def fileRow_def writeAchievement_def
      today_def markReplaced_def upsertRequest_def insertRequest_def readByDate_def
      cong: case_congs)

lemma rows_trace_partial [simp]:
  "fileRow (w\<lparr>trace := t\<rparr>) userId = fileRow w userId"
  "datedRow (w\<lparr>trace := t\<rparr>) userId dc ec counted = datedRow w userId dc ec counted"
  by (rule ext, simp)+

lemma storedPreferences_trace [simp]:
  "storedPreferences key userId (w\<lparr>trace := t\<rparr>) = storedPreferences key userId w"
  by (simp add: storedPreferences_def cong: case_congs)

lemma profileUpsert_trace [simp]:
  "profileUpsert (w\<lparr>trace := t\<rparr>) key userId u = profileUpsert w key userId u"
  by (simp add: profileUpsert_def cong: case_congs)

lemma replaceRows_trace [simp]:
  "replaceRows (w\<lparr>trace := t\<rparr>) key table idc userId rows = replaceRows w key table idc userId rows"
  by (simp add: replaceRows_def cong: case_congs)

lemma tableLayer_trace [simp]:
  "setUserProfileData key data userId (w\<lparr>trace := t\<rparr>) = setUserProfileData key data userId w"
  "setUserDataInTable key data tn userId (w\<lparr>trace := t\<rparr>) = setUserDataInTable key data tn userId w"
  "getUserProfileData key userId (w\<lparr>trace := t\<rparr>) = getUserProfileData key userId w"
  "getUserDataFromTable key tn userId (w\<lparr>trace := t\<rparr>) = getUserDataFromTable key tn userId w"
  by (simp_all add: setUserProfileData_def setUserDataInTable_def getUserProfileData_def
      getUserDataFromTable_def cong: case_congs)

lemma remoteFetch_trace [simp]:
  "remoteFetch key userId (w\<lparr>trace := t\<rparr>) = remoteFetch key userId w"
  by (simp add: remoteFetch_def)

lemma remoteStore_trace:
  "remoteStore key data userId (w\<lparr>trace := t\<rparr>) =
     (fst (remoteStore key data userId w), (snd (remoteStore key data userId w))\<lparr>trace := t\<rparr>)"
  by (simp add: remoteStore_def split: prod.splits)

lemma remoteStore_shape:
  "snd (remoteStore key data userId w) = w\<lparr>remoteDb := remoteDb (snd (remoteStore key data userId w))\<rparr>"
  by (simp add: remoteStore_def split: prod.splits)

lemma updateSyncStatus_trace:
  "trace (updateSyncStatus t userId status w) = trace w @ [SyncStatusUpsert t userId status]"
  by (simp add: updateSyncStatus_def Let_def emit_def split: option.splits)

lemma remoteStore_keeps_trace: "trace (snd (remoteStore key data userId w)) = trace w"
  by (simp add: remoteStore_def split: prod.splits)

subsection \<open>The order of the calls of a write\<close>

lemma criticalAuthError_mismatch [simp]: "criticalAuthError (JsError mismatchMessage)"
  by (simp add: criticalAuthError_def mismatchMessage_def startsWith_def)

lemma logDataAccess_cases:
  "logDataAccess action t userId w = (r, w1) \<Longrightarrow>
     (r = Inr () \<and> (w1 = w \<or> w1 = emit (AuditLog action t userId) w)) \<or>
     (\<exists>e. r = Inl e \<and> criticalAuthError e \<and> w1 = w)"
  by (auto simp: logDataAccess_def logDataAccess_try_def criticalAuthError_def
      mismatchMessage_def startsWith_def split: sum.splits if_splits)

text \<open>
  Online, the first call of a write goes to the remote backend, and the write to the Local
  Cache Store is the last one.
\<close>

theorem setData_local_first_counterexample:
  "trace (snd (setData ''goals'' (JArr []) ''user-1'' baseWorld)) =
     [RemoteSet ''goals'' (JArr []) ''user-1'',
      AuditLog ''DATA_MODIFY'' ''user_goals'' ''user-1'',
      SyncStatusUpsert ''user_goals'' ''user-1'' ''completed'',
      LocalSet ''goals'' (JArr [])]"
  by (simp add: setData_def supabaseSet_def supabaseSet_try_def logDataAccess_def
      logDataAccess_try_def remoteStore_def setUserDataInTable_def replaceRows_def
      markReplaced_def updateRows_def updateSyncStatus_def storageSet_def
      baseWorld_def getTableName_def tableMap_def emit_def Let_def)


lemma logDataAccess_trace:
  "\<exists>evs. trace (snd (logDataAccess action t userId w)) = trace w @ evs \<and>
         (\<forall>e \<in> set evs. e = AuditLog action t userId)"
  by (auto simp: logDataAccess_def logDataAccess_try_def split: sum.splits if_splits)

lemma logDataAccess_frame [simp]:
  "localStorage (snd (logDataAccess action t userId w)) = localStorage w"
  "localFault (snd (logDataAccess action t userId w)) = localFault w"
  "remoteDb (snd (logDataAccess action t userId w)) = remoteDb w"
  "remoteFault (snd (logDataAccess action t userId w)) = remoteFault w"
  "syncStatusRows (snd (logDataAccess action t userId w)) = syncStatusRows w"
  "offlineQueue (snd (logDataAccess action t userId w)) = offlineQueue w"
  "sessionUser (snd (logDataAccess action t userId w)) = sessionUser w"
  "hdsOnline (snd (logDataAccess action t userId w)) = hdsOnline w"
  "syncQueue (snd (logDataAccess action t userId w)) = syncQueue w"
  "syncSettings (snd (logDataAccess action t userId w)) = syncSettings w"
  "clockISO (snd (logDataAccess action t userId w)) = clockISO w"
  by (auto simp: logDataAccess_def logDataAccess_try_def split: sum.splits if_splits)

lemma supabaseSet_trace:
  "\<exists>evs. trace (snd (supabaseSet key data userId w)) = trace w @ RemoteSet key data userId # evs
         \<and> (\<forall>e \<in> set evs. \<forall>k v. e \<noteq> LocalSet k v)"
proof -
  have "\<exists>evs. trace (snd (supabaseSet_try key data userId w0)) = trace w0 @ evs
           \<and> (\<forall>e \<in> set evs. \<forall>k v. e \<noteq> LocalSet k v)" for w0
    using logDataAccess_trace[of "''DATA_MODIFY''" "getTableName key" userId w0]
    using remoteStore_keeps_trace[of key data userId "snd (logDataAccess ''DATA_MODIFY'' (getTableName key) userId w0)"]
    by (auto simp: supabaseSet_try_def updateSyncStatus_trace
        split: prod.splits sum.splits option.splits)
  from this[of "emit (RemoteSet key data userId) w"]
  obtain evs where 1: "trace (snd (supabaseSet_try key data userId (emit (RemoteSet key data userId) w)))
      = trace w @ RemoteSet key data userId # evs" and 2: "\<forall>e \<in> set evs. \<forall>k v. e \<noteq> LocalSet k v"
    by auto
  obtain r w1 where t: "supabaseSet_try key data userId (emit (RemoteSet key data userId) w) = (r, w1)"
    by (cases "supabaseSet_try key data userId (emit (RemoteSet key data userId) w)")
  show ?thesis
  proof (cases r)
    case (Inr u)
    with t 1 2 show ?thesis by (auto simp: supabaseSet_def)
  next
    case (Inl e)
    from logDataAccess_trace[of "''DATA_MODIFY_ERROR''" "getTableName key" userId w1]
    obtain evs2 where 3: "trace (snd (logDataAccess ''DATA_MODIFY_ERROR'' (getTableName key) userId w1)) = trace w1 @ evs2"
      and 4: "\<forall>e \<in> set evs2. e = AuditLog ''DATA_MODIFY_ERROR'' (getTableName key) userId" by blast
    from t 1 have tw1: "trace w1 = trace w @ RemoteSet key data userId # evs" by simp
    show ?thesis
      using Inl t tw1 2 3 4
      by (cases "logDataAccess ''DATA_MODIFY_ERROR'' (getTableName key) userId w1")
         (auto simp: supabaseSet_def updateSyncStatus_trace split: sum.splits)
  qed
qed

lemma storageSet_trace: "trace (snd (storageSet key data w)) = trace w @ [LocalSet key data]"
  by (simp add: storageSet_def Let_def split: option.splits)

lemma cacheAndQueue_trace:
  "\<exists>evs. trace (snd (cacheAndQueue key data userId w)) = trace w @ LocalSet key data # evs"
  by (auto simp: cacheAndQueue_def storageSet_def queueForSync_def Let_def
      split: option.splits prod.splits sum.splits)

lemma setData_online_trace:
  assumes "hdsOnline w"
  shows "\<exists>evs. trace (snd (setData key data userId w)) = trace w @ RemoteSet key data userId # evs
           \<and> LocalSet key data \<in> set evs"
proof -
  obtain r w1 where s: "supabaseSet key data userId w = (r, w1)"
    by (cases "supabaseSet key data userId w")
  from supabaseSet_trace[of key data userId w] s
  obtain evs where 1: "trace w1 = trace w @ RemoteSet key data userId # evs" by auto
  show ?thesis
  proof (cases r)
    case (Inl e)
    from cacheAndQueue_trace[of key data userId w1] obtain evs2 where
      "trace (snd (cacheAndQueue key data userId w1)) = trace w1 @ LocalSet key data # evs2" by blast
    with Inl s 1 assms show ?thesis by (simp add: setData_def)
  next
    case (Inr u)
    note rInr = this
    obtain r2 w2 where l: "storageSet key data w1 = (r2, w2)" by (cases "storageSet key data w1")
    from storageSet_trace[of key data w1] l have 2: "trace w2 = trace w1 @ [LocalSet key data]" by simp
    show ?thesis
    proof (cases r2)
      case (Inr u2)
      with rInr s l 1 2 assms show ?thesis
        by (simp add: setData_def)
    next
      case (Inl e2)
      from cacheAndQueue_trace[of key data userId w2] obtain evs2 where
        "trace (snd (cacheAndQueue key data userId w2)) = trace w2 @ LocalSet key data # evs2" by blast
      with Inl rInr s l 1 2 assms show ?thesis by (simp add: setData_def)
    qed
  qed
qed

text \<open>
  Claim C1, amended.  Online, a write through the coordinator enters the remote backend
  first and writes the Local Cache Store afterwards.  When the session is the owner's, the
  tables take the write and the local store does not refuse it, the Local Cache Store then
  holds the value, the tables are as the remote write left them, nothing is queued and
  nothing further happens.  Offline, the value is written to the Local Cache Store and
  queued, and the remote backend is not entered.
\<close>

theorem setData_remote_then_local:
  "(hdsOnline w \<longrightarrow>
      (\<exists>evs. trace (snd (setData key data userId w)) = trace w @ RemoteSet key data userId # evs
             \<and> LocalSet key data \<in> set evs))
   \<and> (hdsOnline w \<and> sessionUser w = Inr (Some userId)
        \<and> fst (remoteStore key data userId w) = Inr ()
        \<and> localFault w key = None \<longrightarrow>
      setData key data userId w =
        (Inr (), w\<lparr>remoteDb := remoteDb (snd (remoteStore key data userId w)),
                   syncStatusRows :=
                     syncStatusRows (updateSyncStatus (getTableName key) userId ''completed'' w),
                   localStorage := (localStorage w)(key \<mapsto> data),
                   trace := trace w @
                     [RemoteSet key data userId,
                      AuditLog ''DATA_MODIFY'' (getTableName key) userId,
                      SyncStatusUpsert (getTableName key) userId ''completed'',
                      LocalSet key data]\<rparr>))
   \<and> (\<not> hdsOnline w \<and> localFault w key = None \<longrightarrow>
      setData key data userId w =
        (Inr (), w\<lparr>localStorage := (localStorage w)(key \<mapsto> data),
                   syncQueue := map_set (userId @ '':'' @ key)
                                  \<lparr>queuedKey = key, queuedData = data, queuedUserId = userId,
                                   queuedTimestamp = clockMs w\<rparr> (syncQueue w),
                   trace := trace w @ [LocalSet key data, QueuedForSync key userId]\<rparr>))"
proof (intro conjI impI)
  assume "hdsOnline w"
  then show "\<exists>evs. trace (snd (setData key data userId w)) = trace w @ RemoteSet key data userId # evs
             \<and> LocalSet key data \<in> set evs"
    by (rule setData_online_trace)
next
  assume a: "hdsOnline w \<and> sessionUser w = Inr (Some userId)
        \<and> fst (remoteStore key data userId w) = Inr () \<and> localFault w key = None"
  let ?t1 = "trace w @ [RemoteSet key data userId,
                        AuditLog ''DATA_MODIFY'' (getTableName key) userId]"
  let ?db = "remoteDb (snd (remoteStore key data userId w))"
  have l: "logDataAccess ''DATA_MODIFY'' (getTableName key) userId
             (emit (RemoteSet key data userId) w) = (Inr (), w\<lparr>trace := ?t1\<rparr>)"
    using a by (simp add: logDataAccess_def logDataAccess_try_def emit_def)
  have rs: "remoteStore key data userId (w\<lparr>trace := ?t1\<rparr>) = (Inr (), w\<lparr>remoteDb := ?db, trace := ?t1\<rparr>)"
    using a remoteStore_shape[of key data userId w]
    by (simp add: remoteStore_trace)
  have s: "supabaseSet key data userId w =
      (Inr (), updateSyncStatus (getTableName key) userId ''completed''
                 (w\<lparr>remoteDb := ?db, trace := ?t1\<rparr>))"
    using l rs by (simp add: supabaseSet_def supabaseSet_try_def)
  show "setData key data userId w =
        (Inr (), w\<lparr>remoteDb := ?db,
                   syncStatusRows :=
                     syncStatusRows (updateSyncStatus (getTableName key) userId ''completed'' w),
                   localStorage := (localStorage w)(key \<mapsto> data),
                   trace := trace w @
                     [RemoteSet key data userId,
                      AuditLog ''DATA_MODIFY'' (getTableName key) userId,
                      SyncStatusUpsert (getTableName key) userId ''completed'',
                      LocalSet key data]\<rparr>)"
    using a s
    by (simp add: setData_def updateSyncStatus_def storageSet_def emit_def Let_def
        split: option.splits)
next
  assume "\<not> hdsOnline w \<and> localFault w key = None"
  then show "setData key data userId w =
        (Inr (), w\<lparr>localStorage := (localStorage w)(key \<mapsto> data),
                   syncQueue := map_set (userId @ '':'' @ key)
                                  \<lparr>queuedKey = key, queuedData = data, queuedUserId = userId,
                                   queuedTimestamp = clockMs w\<rparr> (syncQueue w),
                   trace := trace w @ [LocalSet key data, QueuedForSync key userId]\<rparr>)"
    by (simp add: setData_def cacheAndQueue_def storageSet_def queueForSync_def emit_def Let_def)
qed

lemma traceOnly_refl [simp]: "traceOnly w w"
  by (auto simp: traceOnly_def intro: exI[of _ "[]"])

lemma traceOnly_trans: "traceOnly w w1 \<Longrightarrow> traceOnly w1 w2 \<Longrightarrow> traceOnly w w2"
  by (auto simp: traceOnly_def)

lemma traceOnly_emit [simp]: "replaySteps [e] = [] \<Longrightarrow> traceOnly w (emit e w)"
  by (auto simp: traceOnly_def emit_def)

lemma traceOnly_emit_trans:
  "replaySteps [e] = [] \<Longrightarrow> traceOnly (emit e w) w1 \<Longrightarrow> traceOnly w w1"
  using traceOnly_trans traceOnly_emit by blast

lemma traceOnly_fields:
  assumes "traceOnly w w'"
  shows "localStorage w' = localStorage w" "localFault w' = localFault w"
    "remoteDb w' = remoteDb w" "remoteFault w' = remoteFault w"
    "syncStatusRows w' = syncStatusRows w" "offlineQueue w' = offlineQueue w"
    "encryptionEnv w' = encryptionEnv w" "hostPlatform w' = hostPlatform w"
    "sessionUser w' = sessionUser w" "hdsOnline w' = hdsOnline w"
    "syncQueue w' = syncQueue w" "syncSettings w' = syncSettings w"
    "syncStatus w' = syncStatus w" "pendingConflicts w' = pendingConflicts w"
    "clockISO w' = clockISO w" "clockMs w' = clockMs w"
  using assms by (auto simp: traceOnly_def)

lemma logDataAccess_traceOnly: "logDataAccess action t userId w = (r, w1) \<Longrightarrow> traceOnly w w1"
  by (auto simp: logDataAccess_def logDataAccess_try_def split: sum.splits if_splits)

lemma supabaseGet_try_traceOnly: "supabaseGet_try key userId w = (r, w1) \<Longrightarrow> traceOnly w w1"
  by (auto simp: supabaseGet_try_def split: if_splits prod.splits sum.splits
      dest: logDataAccess_traceOnly)

lemma supabaseGet_traceOnly:
  assumes "supabaseGet key userId w = (r, w1)"
  shows "traceOnly w w1"
proof -
  obtain r0 w0 where t: "supabaseGet_try key userId (emit (RemoteGet key userId) w) = (r0, w0)"
    by (cases "supabaseGet_try key userId (emit (RemoteGet key userId) w)")
  from supabaseGet_try_traceOnly[OF t] have 0: "traceOnly w w0"
    by (rule traceOnly_emit_trans[rotated]) simp
  show ?thesis
  proof (cases r0)
    case (Inr v)
    with t assms 0 show ?thesis by (simp add: supabaseGet_def)
  next
    case (Inl e)
    obtain r2 w2 where l: "logDataAccess ''DATA_ACCESS_ERROR'' (getTableName key) userId w0 = (r2, w2)"
      by (cases "logDataAccess ''DATA_ACCESS_ERROR'' (getTableName key) userId w0")
    from logDataAccess_traceOnly[OF l] 0 have "traceOnly w w2" by (blast intro: traceOnly_trans)
    with Inl t l assms show ?thesis by (auto simp: supabaseGet_def split: sum.splits)
  qed
qed

text \<open>What the remote read answers when the session does not belong to the requested owner.\<close>

lemma supabaseGet_mismatch:
  assumes "\<not> invalidUserId userId" "sessionUser w = Inr s" "s \<noteq> Some userId"
  shows "supabaseGet key userId w = (Inl (JsError mismatchMessage), emit (RemoteGet key userId) w)"
  using assms
  by (simp add: supabaseGet_def supabaseGet_try_def logDataAccess_def logDataAccess_try_def
      mismatchMessage_def startsWith_def)

text \<open>
  Claim C2.  A read for a blank owner fails before any store is touched.  Online, when the
  session does not belong to the requested owner, the read propagates the security error
  of the remote backend; between the call and the failure only the remote backend is
  entered, so the Local Cache Store is neither read nor written.  For a remote read that
  fails with any error \<open>e\<close>: an \<open>Error\<close> whose message carries one of the two markers of
  an identity violation is propagated; every other failure is swallowed and the read
  returns what the Local Cache Store holds.
\<close>

theorem getData_identity_violation:
  "(invalidUserId userId \<longrightarrow>
      getData key userId w =
        (Inl (JsError (''Invalid userId provided for getData: '' @ userId)), w))
   \<and> (\<not> invalidUserId userId \<and> hdsOnline w \<and> sessionUser w = Inr s \<and> s \<noteq> Some userId \<longrightarrow>
      getData key userId w = (Inl (JsError mismatchMessage), emit (RemoteGet key userId) w))
   \<and> (\<not> invalidUserId userId \<and> hdsOnline w \<and> supabaseGet key userId w = (Inl e, w1) \<longrightarrow>
      (if criticalAuthError e then getData key userId w = (Inl e, w1)
       else getData key userId w = (Inr (storedValue key w), emit (LocalGet key) w1)))"
proof (intro conjI impI)
  assume "invalidUserId userId"
  then show "getData key userId w =
        (Inl (JsError (''Invalid userId provided for getData: '' @ userId)), w)"
    by (simp add: getData_def)
next
  assume a: "\<not> invalidUserId userId \<and> hdsOnline w \<and> sessionUser w = Inr s \<and> s \<noteq> Some userId"
  then have "supabaseGet key userId w = (Inl (JsError mismatchMessage), emit (RemoteGet key userId) w)"
    by (simp add: supabaseGet_mismatch)
  with a show "getData key userId w = (Inl (JsError mismatchMessage), emit (RemoteGet key userId) w)"
    by (simp add: getData_def getData_try_def)
next
  assume a: "\<not> invalidUserId userId \<and> hdsOnline w \<and> supabaseGet key userId w = (Inl e, w1)"
  then have "traceOnly w w1" by (blast intro: supabaseGet_traceOnly)
  then have "storedValue key w1 = storedValue key w"
    by (simp add: storedValue_def traceOnly_fields)
  with a show "if criticalAuthError e then getData key userId w = (Inl e, w1)
       else getData key userId w = (Inr (storedValue key w), emit (LocalGet key) w1)"
    by (simp add: getData_def getData_try_def storageGet_def)
qed

subsection \<open>The skill list\<close>

lemma uniqueInOrder_filter:
  "uniqueInOrder (filter P xs) = filter P (uniqueInOrder xs)"
proof (induction xs rule: uniqueInOrder.induct)
  case 1
  then show ?case by simp
next
  case (2 x xs)
  show ?case
  proof (cases "P x")
    case True
    have "filter (\<lambda>y. \<not> sameValueZero x y) (filter P xs) = filter P (filter (\<lambda>y. \<not> sameValueZero x y) xs)"
      by (simp add: conj_commute)
    with True 2 show ?thesis by simp
  next
    case False
    have "filter P (filter (\<lambda>y. \<not> sameValueZero x y) xs) = filter P xs"
      using False by (auto simp: sameValueZero_def intro: filter_cong)
    with False 2 show ?thesis by simp
  qed
qed

lemma uniqueInOrder_set:
  "set (uniqueInOrder xs) = set xs"
proof (induction xs rule: uniqueInOrder.induct)
  case 1
  then show ?case by simp
next
  case (2 x xs)
  then show ?case by (auto simp: sameValueZero_def)
qed

lemma uniqueInOrder_distinct:
  "\<forall>x \<in> set xs. isPrimitive x \<Longrightarrow> distinct (uniqueInOrder xs)"
proof (induction xs rule: uniqueInOrder.induct)
  case 1
  then show ?case by simp
next
  case (2 x xs)
  then show ?case by (auto simp: sameValueZero_def uniqueInOrder_set)
qed

lemma uniqueInOrder_append:
  "\<forall>x \<in> set xs. isPrimitive x \<Longrightarrow>
   uniqueInOrder (xs @ ys) = uniqueInOrder xs @ filter (\<lambda>y. y \<notin> set xs) (uniqueInOrder ys)"
proof (induction xs arbitrary: ys rule: uniqueInOrder.induct)
  case 1
  then show ?case by simp
next
  case (2 x xs)
  let ?P = "\<lambda>y. \<not> sameValueZero x y"
  have px: "isPrimitive x" using 2 by simp
  have prims: "\<forall>x \<in> set (filter ?P xs). isPrimitive x" using 2 by simp
  have "uniqueInOrder ((x # xs) @ ys) = x # uniqueInOrder (filter ?P xs @ filter ?P ys)"
    by simp
  also have "\<dots> = x # uniqueInOrder (filter ?P xs) @
                    filter (\<lambda>y. y \<notin> set (filter ?P xs)) (uniqueInOrder (filter ?P ys))"
    using "2.IH"[OF prims] by simp
  also have "filter (\<lambda>y. y \<notin> set (filter ?P xs)) (uniqueInOrder (filter ?P ys))
           = filter (\<lambda>y. y \<notin> set (x # xs)) (uniqueInOrder ys)"
    using px by (auto simp: uniqueInOrder_filter sameValueZero_def intro: filter_cong)
  finally show ?case by simp
qed

lemma uniqueInOrder_id:
  "\<forall>x \<in> set xs. isPrimitive x \<Longrightarrow> distinct xs \<Longrightarrow> uniqueInOrder xs = xs"
proof (induction xs)
  case Nil
  then show ?case by simp
next
  case (Cons x xs)
  have "filter (\<lambda>y. \<not> sameValueZero x y) xs = xs"
    using Cons.prems by (auto simp: sameValueZero_def intro: filter_True)
  with Cons show ?case by simp
qed

text \<open>
  Claim C7.  For the skill list (a list of strings, compared by value) with default list
  \<open>D\<close>: when the stored read yields the empty list, the result is \<open>D\<close>; when it yields a
  non-empty list \<open>R\<close>, the result is the union of \<open>D\<close> and \<open>R\<close> without duplicates, the
  items of \<open>D\<close> first, then the items of \<open>R\<close> that \<open>D\<close> lacks, each side in its own order.
\<close>

theorem getDataSafe_skillsList:
  assumes "getData ''skillsList'' userId w = (Inr (JArr R), w1)"
      and "\<forall>x \<in> set (D @ R). isPrimitive x"
  shows "(\<exists>U. getDataSafe ''skillsList'' userId (JArr D) w = (Inr (JArr U), w1)
          \<and> (if R = [] then U = D
              else U = uniqueInOrder D @ filter (\<lambda>y. y \<notin> set D) (uniqueInOrder R)
                   \<and> distinct U \<and> set U = set D \<union> set R
                   \<and> (distinct D \<longrightarrow> take (length D) U = D)))"
proof (cases "R = []")
  case True
  with assms show ?thesis by (simp add: getDataSafe_def)
next
  case False
  let ?U = "uniqueInOrder (D @ R)"
  have g: "getDataSafe ''skillsList'' userId (JArr D) w = (Inr (JArr ?U), w1)"
    using assms(1) False by (simp add: getDataSafe_def)
  have pD: "\<forall>x \<in> set D. isPrimitive x" using assms(2) by simp
  have a: "?U = uniqueInOrder D @ filter (\<lambda>y. y \<notin> set D) (uniqueInOrder R)"
    by (rule uniqueInOrder_append[OF pD])
  have d: "distinct ?U" using assms(2) by (rule uniqueInOrder_distinct)
  have s: "set ?U = set D \<union> set R" by (simp add: uniqueInOrder_set)
  have t: "distinct D \<longrightarrow> take (length D) ?U = D"
    using a uniqueInOrder_id[OF pD] by simp
  from g a d s t False show ?thesis by auto
qed

section \<open>Properties of the Reconciliation Engine\<close>

text \<open>
  Claim C4.  For local and remote values that serialise differently, \<open>detectConflict\<close>
  builds a conflict holding both values and timestamps, whose type is \<open>concurrent_edit\<close>
  exactly when both timestamps are dates less than 60000 milliseconds apart, and \<open>update\<close>
  exactly when they are not.
\<close>

theorem detectConflict_classification:
  assumes "JSON_stringify l \<noteq> JSON_stringify r"
  shows "\<exists>c. detectConflict pf key l r lt rt = Some c
           \<and> conflictKey c = key \<and> localData c = l \<and> remoteData c = r
           \<and> localTimestamp c = lt \<and> remoteTimestamp c = rt
           \<and> (conflictType c = ConcurrentEdit \<longleftrightarrow>
                (\<exists>a b. dateMs pf lt = Some a \<and> dateMs pf rt = Some b \<and> \<bar>a - b\<bar> < 60000))
           \<and> (conflictType c = UpdateConflict \<longleftrightarrow>
                \<not> (\<exists>a b. dateMs pf lt = Some a \<and> dateMs pf rt = Some b \<and> \<bar>a - b\<bar> < 60000))"
  using assms
  by (auto simp: detectConflict_def timeDiff_def split: option.splits)

text \<open>
  The two guards of \<open>performSync\<close>: a request made offline, or while the status is
  \<open>syncing\<close>, returns at once with the error that names the reason, and leaves the whole
  state as it was.
\<close>

lemma performSync_guards:
  assumes "\<not> syncOnline w \<or> syncStatus w = Syncing"
  shows "performSync pf userId w =
           Some (Inl (JsError (if \<not> syncOnline w then ''Cannot sync while offline''
                               else ''Sync already in progress'')), w)"
  using assms by (auto simp: performSync_def performSync_begin_def)

text \<open>An accepted request sets the status to \<open>syncing\<close> before it is suspended.\<close>

lemma performSync_begin_accepts:
  assumes "syncOnline w" "syncStatus w \<noteq> Syncing"
  shows "fst (performSync_begin w) = Inr ()"
    and "syncStatus (snd (performSync_begin w)) = Syncing"
  using assms by (simp_all add: performSync_begin_def notifySync_def emit_def)

lemma traceOnly_remoteOnly: "traceOnly w w' \<Longrightarrow> remoteOnly w w'"
  by (auto simp: traceOnly_def remoteOnly_def)

lemma remoteOnly_refl [simp]: "remoteOnly w w"
  by (simp add: traceOnly_remoteOnly)

lemma remoteOnly_trans: "remoteOnly w w1 \<Longrightarrow> remoteOnly w1 w2 \<Longrightarrow> remoteOnly w w2"
  by (auto simp: remoteOnly_def)

lemma remoteOnly_fields:
  assumes "remoteOnly w w'"
  shows "localStorage w' = localStorage w" "localFault w' = localFault w"
    "remoteFault w' = remoteFault w" "offlineQueue w' = offlineQueue w"
    "sessionUser w' = sessionUser w" "hdsOnline w' = hdsOnline w"
    "encryptionEnv w' = encryptionEnv w" "hostPlatform w' = hostPlatform w"
    "syncQueue w' = syncQueue w" "syncSettings w' = syncSettings w"
    "syncStatus w' = syncStatus w" "pendingConflicts w' = pendingConflicts w"
    "clockISO w' = clockISO w" "clockMs w' = clockMs w"
  using assms by (auto simp: remoteOnly_def)

lemma remoteStore_remoteOnly: "remoteStore key data userId w = (r, w1) \<Longrightarrow> remoteOnly w w1"
  by (auto simp: remoteStore_def remoteOnly_def split: prod.splits)


lemma updateSyncStatus_remoteOnly: "remoteOnly w (updateSyncStatus t userId status w)"
  by (auto simp: updateSyncStatus_def remoteOnly_def Let_def emit_def split: option.splits)

lemma emit_remoteOnly [simp]: "replaySteps [e] = [] \<Longrightarrow> remoteOnly w (emit e w)"
  by (simp add: traceOnly_remoteOnly)

lemma remoteOnly_emit_trans:
  "replaySteps [e] = [] \<Longrightarrow> remoteOnly (emit e w) w1 \<Longrightarrow> remoteOnly w w1"
  using remoteOnly_trans emit_remoteOnly by blast

lemma remoteOnly_trans_emit:
  "replaySteps [e] = [] \<Longrightarrow> remoteOnly w w1 \<Longrightarrow> remoteOnly w (emit e w1)"
  using remoteOnly_trans emit_remoteOnly by blast

lemma logDataAccess_remoteOnly: "logDataAccess action t userId w = (r, w1) \<Longrightarrow> remoteOnly w w1"
  by (blast intro: traceOnly_remoteOnly logDataAccess_traceOnly)

lemma supabaseSet_try_remoteOnly:
  assumes "supabaseSet_try key data userId w = (r, w')"
  shows "remoteOnly w w'"
proof -
  obtain r1 w1 where l: "logDataAccess ''DATA_MODIFY'' (getTableName key) userId w = (r1, w1)"
    by (cases "logDataAccess ''DATA_MODIFY'' (getTableName key) userId w")
  note 1 = logDataAccess_remoteOnly[OF l]
  obtain r2 w2 where s: "remoteStore key data userId w1 = (r2, w2)"
    by (cases "remoteStore key data userId w1")
  note 2 = remoteOnly_trans[OF 1 remoteStore_remoteOnly[OF s]]
  have 3: "remoteOnly w (updateSyncStatus (getTableName key) userId ''completed'' w2)"
    by (rule remoteOnly_trans[OF 2 updateSyncStatus_remoteOnly])
  from assms l s 1 2 3 show ?thesis
    by (auto simp: supabaseSet_try_def split: sum.splits)
qed

lemma supabaseSet_remoteOnly:
  assumes "supabaseSet key data userId w = (r, w')"
  shows "remoteOnly w w'"
proof -
  let ?w0 = "emit (RemoteSet key data userId) w"
  obtain r1 w1 where t: "supabaseSet_try key data userId ?w0 = (r1, w1)"
    by (cases "supabaseSet_try key data userId ?w0")
  have 1: "remoteOnly w w1"
    by (rule remoteOnly_emit_trans[rotated, OF supabaseSet_try_remoteOnly[OF t]]) simp
  obtain r2 w2 where l: "logDataAccess ''DATA_MODIFY_ERROR'' (getTableName key) userId w1 = (r2, w2)"
    by (cases "logDataAccess ''DATA_MODIFY_ERROR'' (getTableName key) userId w1")
  have 2: "remoteOnly w w2"
    using 1 logDataAccess_remoteOnly[OF l] by (blast intro: remoteOnly_trans)
  have 3: "remoteOnly w (updateSyncStatus (getTableName key) userId ''failed'' w2)"
    by (rule remoteOnly_trans[OF 2 updateSyncStatus_remoteOnly])
  from assms t l 1 2 3 show ?thesis
    by (auto simp: supabaseSet_def split: sum.splits)
qed


text \<open>The local effect of a write through the coordinator.\<close>

lemma cacheAndQueue_local:
  assumes "localFault w key = None"
  shows "\<exists>w1. cacheAndQueue key data userId w = (Inr (), w1)
           \<and> localStorage w1 = (localStorage w)(key \<mapsto> data)
           \<and> localFault w1 = localFault w \<and> remoteDb w1 = remoteDb w
           \<and> syncStatusRows w1 = syncStatusRows w \<and> syncSettings w1 = syncSettings w
           \<and> hdsOnline w1 = hdsOnline w \<and> clockISO w1 = clockISO w
           \<and> syncQueue w1 = map_set (userId @ '':'' @ key)
                \<lparr>queuedKey = key, queuedData = data, queuedUserId = userId,
                 queuedTimestamp = clockMs w\<rparr> (syncQueue w)"
  using assms by (simp add: cacheAndQueue_def storageSet_def queueForSync_def Let_def)

lemma setData_local:
  assumes "localFault w key = None"
  shows "\<exists>w1. setData key data userId w = (Inr (), w1)
           \<and> localStorage w1 = (localStorage w)(key \<mapsto> data)
           \<and> localFault w1 = localFault w
           \<and> syncSettings w1 = syncSettings w \<and> hdsOnline w1 = hdsOnline w
           \<and> clockISO w1 = clockISO w"
proof (cases "hdsOnline w")
  case False
  with cacheAndQueue_local[OF assms, of data userId] show ?thesis
    by (auto simp: setData_def)
next
  case True
  obtain r w0 where s: "supabaseSet key data userId w = (r, w0)"
    by (cases "supabaseSet key data userId w")
  note ro = remoteOnly_fields[OF supabaseSet_remoteOnly[OF s]]
  have lf: "localFault w0 key = None" using assms ro by simp
  show ?thesis
  proof (cases r)
    case (Inl e)
    with cacheAndQueue_local[OF lf, of data userId] True s ro show ?thesis
      by (auto simp: setData_def)
  next
    case (Inr u)
    with True s ro lf show ?thesis
      by (simp add: setData_def storageSet_def Let_def)
  qed
qed

lemma timestampKey_neq [simp]: "timestampKey key \<noteq> key" "key \<noteq> timestampKey key"
  by (simp_all add: timestampKey_def)

lemma winningSide_latest:
  assumes "dateMs pf (localTimestamp c) = Some tL" "dateMs pf (remoteTimestamp c) = Some tR"
  shows "winningSide pf LatestTimestamp c =
           Some (if tL \<ge> tR then (localData c, localTimestamp c)
                 else (remoteData c, remoteTimestamp c))"
  using assms by (simp add: winningSide_def dateGreaterEq_def)

text \<open>
  What automatic resolution under the latest-timestamp policy does on the device: for a
  conflict whose timestamps are dates and a local store that takes the write, it reports
  success, and the Local Cache Store then holds the value with the greater time (the local
  one on a tie) and its timestamp.
\<close>

lemma resolveConflict_local:
  assumes "conflictResolution (syncSettings w) = LatestTimestamp"
      and "dateMs pf (localTimestamp c) = Some tL"
      and "dateMs pf (remoteTimestamp c) = Some tR"
      and "localFault w (conflictKey c) = None"
      and "localFault w (timestampKey (conflictKey c)) = None"
  shows "\<exists>w'. resolveConflict pf c userId w = (True, w')
           \<and> localStorage w' (conflictKey c) = Some (if tL \<ge> tR then localData c else remoteData c)
           \<and> localStorage w' (timestampKey (conflictKey c)) =
               Some (JStr (if tL \<ge> tR then localTimestamp c else remoteTimestamp c))"
proof -
  let ?k = "conflictKey c"
  define v where "v = (if tL \<ge> tR then localData c else remoteData c)"
  define t where "t = (if tL \<ge> tR then localTimestamp c else remoteTimestamp c)"
  have ws: "winningSide pf (conflictResolution (syncSettings w)) c = Some (v, t)"
    using assms(1) winningSide_latest[OF assms(2,3)] by (simp add: v_def t_def split: if_splits)
  from setData_local[OF assms(4), of v userId]
  obtain w1 where s: "setData ?k v userId w = (Inr (), w1)"
    and l1: "localStorage w1 = (localStorage w)(?k \<mapsto> v)"
    and f1: "localFault w1 = localFault w" by blast
  obtain w2 where st: "storageSet (timestampKey ?k) (JStr t) w1 = (Inr (), w2)"
    and l2: "localStorage w2 = (localStorage w1)(timestampKey ?k \<mapsto> JStr t)"
    using assms(5) f1 by (simp add: storageSet_def Let_def emit_def)
  have r: "resolveConflict pf c userId w = (True, w2)"
    using ws s st by (simp add: resolveConflict_def)
  have a: "localStorage w2 ?k = Some v" using l1 l2 by simp
  have b: "localStorage w2 (timestampKey ?k) = Some (JStr t)" using l2 by simp
  have "\<exists>w'. resolveConflict pf c userId w = (True, w')
           \<and> localStorage w' ?k = Some v \<and> localStorage w' (timestampKey ?k) = Some (JStr t)"
    using r a b by blast
  then show ?thesis by (simp only: v_def t_def)
qed

lemma getData_effect:
  assumes "getData key userId w = (res, w')"
  shows "remoteDb w' = remoteDb w \<and> syncStatusRows w' = syncStatusRows w
         \<and> remoteFault w' = remoteFault w \<and> localFault w' = localFault w
         \<and> syncSettings w' = syncSettings w \<and> hdsOnline w' = hdsOnline w
         \<and> sessionUser w' = sessionUser w \<and> clockISO w' = clockISO w
         \<and> (localStorage w' = localStorage w
              \<or> (\<exists>v. res = Inr v \<and> localStorage w' = (localStorage w)(key \<mapsto> v)))"
proof -
  obtain r0 w0 where g: "supabaseGet key userId w = (r0, w0)"
    by (cases "supabaseGet key userId w")
  note f = traceOnly_fields[OF supabaseGet_traceOnly[OF g]]
  show ?thesis
    using assms g f
    by (auto simp: getData_def getData_try_def storageSet_def storageGet_def Let_def
        split: if_splits sum.splits option.splits)
qed

lemma getRemoteData_effect:
  assumes "getRemoteData key userId w = (v, w')"
  shows "remoteDb w' = remoteDb w \<and> syncStatusRows w' = syncStatusRows w
         \<and> remoteFault w' = remoteFault w \<and> localFault w' = localFault w
         \<and> syncSettings w' = syncSettings w \<and> hdsOnline w' = hdsOnline w
         \<and> sessionUser w' = sessionUser w \<and> clockISO w' = clockISO w
         \<and> (localStorage w' = localStorage w \<or> localStorage w' = (localStorage w)(key \<mapsto> v))"
proof -
  obtain res w1 where g: "getData key userId w = (res, w1)" by (cases "getData key userId w")
  from getData_effect[OF g] assms g show ?thesis
    by (auto simp: getRemoteData_def split: sum.splits)
qed

lemma readBothSides_effect:
  assumes "readBothSides dataType userId w = ((l, lt, r, rt), w3)"
  shows "l = storedValue dataType w"
    and "lt = (case storedValue (timestampKey dataType) w of JStr s \<Rightarrow> s | _ \<Rightarrow> epochISO)"
    and "remoteDb w3 = remoteDb w" and "syncStatusRows w3 = syncStatusRows w"
    and "localStorage w3 = localStorage w \<or> localStorage w3 = (localStorage w)(dataType \<mapsto> r)"
proof -
  let ?w2 = "emit (LocalGet (timestampKey dataType)) (emit (LocalGet dataType) w)"
  obtain v w' where g: "getRemoteData dataType userId ?w2 = (v, w')"
    by (cases "getRemoteData dataType userId ?w2")
  from assms g have eqs: "l = storedValue dataType w"
    "lt = (case storedValue (timestampKey dataType) w of JStr s \<Rightarrow> s | _ \<Rightarrow> epochISO)"
    "r = v" "w3 = w'"
    by (simp_all add: readBothSides_def storageGet_def storedValue_def Let_def)
  from eqs show "l = storedValue dataType w" by simp
  from eqs show "lt = (case storedValue (timestampKey dataType) w of JStr s \<Rightarrow> s | _ \<Rightarrow> epochISO)"
    by simp
  from getRemoteData_effect[OF g] eqs show "remoteDb w3 = remoteDb w"
    and "syncStatusRows w3 = syncStatusRows w"
    and "localStorage w3 = localStorage w \<or> localStorage w3 = (localStorage w)(dataType \<mapsto> r)"
    by auto
qed

text \<open>
  Claim C9, amended.  When the pass reads a local and a remote value that are both present
  and serialise to the same string, and the two timestamps it reads are equal, it does
  nothing after reading and reports success without a conflict: the rows of the data
  tables, the rows of \<open>sync_status\<close> and the local timestamp entry are what they
  were, and the local value serialises as before (reading through the coordinator may
  have cached the remote copy over it).
\<close>

theorem syncDataType_equal_is_noop:
  assumes "readBothSides dataType userId w = ((l, lt, r, rt), w3)"
      and "l \<noteq> JNull" and "r \<noteq> JNull"
      and "JSON_stringify l = JSON_stringify r"
      and "lt = rt"
  shows "syncDataType pf dataType userId w = (Inr (True, None), w3)
         \<and> remoteDb w3 = remoteDb w \<and> syncStatusRows w3 = syncStatusRows w
         \<and> localStorage w3 (timestampKey dataType) = localStorage w (timestampKey dataType)
         \<and> map_option JSON_stringify (localStorage w3 dataType) =
             map_option JSON_stringify (localStorage w dataType)"
proof -
  have s: "syncDataType pf dataType userId w = (Inr (True, None), w3)"
    using assms by (simp add: syncDataType_def detectConflict_def)
  note e = readBothSides_effect[OF assms(1)]
  have loc: "localStorage w dataType = Some l"
    using e(1) assms(2) by (auto simp: storedValue_def split: option.splits)
  have t: "localStorage w3 (timestampKey dataType) = localStorage w (timestampKey dataType)"
    using e(5) by auto
  have v: "map_option JSON_stringify (localStorage w3 dataType) =
             map_option JSON_stringify (localStorage w dataType)"
    using e(5) loc assms(4) by auto
  from s e(3,4) t v show ?thesis by simp
qed

section \<open>Properties of the Offline Change Queue\<close>

lemma quiet_refl [simp]: "quiet w w"
  by (simp add: quiet_def)








text \<open>A call of the coordinator leaves the queue and the faults of the database alone.\<close>

lemma sameQueue_refl [simp]: "sameQueue w w"
  by (simp add: sameQueue_def)









subsection \<open>The steps of a drain\<close>







subsection \<open>The rows of the queue\<close>













section \<open>Properties of the codec\<close>

lemma indexOf_nth: "distinct xs \<Longrightarrow> n < length xs \<Longrightarrow> indexOf (xs ! n) xs = Some n"
proof (induction xs arbitrary: n)
  case Nil
  then show ?case by simp
next
  case (Cons x xs)
  show ?case
  proof (cases n)
    case 0
    then show ?thesis by simp
  next
    case (Suc m)
    with Cons.prems have "xs ! m \<in> set xs" "x \<notin> set xs" by auto
    then have "xs ! m \<noteq> x" by auto
    with Suc Cons show ?thesis by simp
  qed
qed

lemma base64Alphabet_length: "length base64Alphabet = 64"
  by (simp add: base64Alphabet_def)

lemma base64Alphabet_distinct: "distinct base64Alphabet"
  by (simp add: base64Alphabet_def)

lemma base64Alphabet_plain:
  "\<forall>c \<in> set base64Alphabet. c \<noteq> CHR ''='' \<and> \<not> asciiWhitespace c"
  by (simp add: base64Alphabet_def asciiWhitespace_def)

lemma base64Char_index: "n < 64 \<Longrightarrow> indexOf (base64Char n) base64Alphabet = Some n"
  unfolding base64Char_def
  by (rule indexOf_nth[OF base64Alphabet_distinct]) (simp add: base64Alphabet_length)

lemma base64Char_plain:
  "n < 64 \<Longrightarrow> base64Char n \<noteq> CHR ''='' \<and> \<not> asciiWhitespace (base64Char n)"
  using base64Alphabet_plain base64Alphabet_length
  by (simp add: base64Char_def)

lemma d16: "y < 256 \<Longrightarrow> y div 16 < (16::nat)"
  using less_mult_imp_div_less[of y 16 16] by simp
lemma d64: "z < 256 \<Longrightarrow> z div 64 < (4::nat)"
  using less_mult_imp_div_less[of z 4 64] by simp
lemma d4: "x < 256 \<Longrightarrow> x div 4 < (64::nat)"
  using less_mult_imp_div_less[of x 64 4] by simp

lemma b1: "y < 256 \<Longrightarrow> ((x mod 4) * 16 + y div 16) div 16 = x mod (4::nat)"
  using d16[of y] by simp
lemma b2: "y < 256 \<Longrightarrow> ((x mod 4) * 16 + y div 16) mod 16 = y div (16::nat)"
  using d16[of y] by simp
lemma b3: "z < 256 \<Longrightarrow> ((y mod 16) * 4 + z div 64) div 4 = y mod (16::nat)"
  using d64[of z] by simp
lemma b4: "z < 256 \<Longrightarrow> ((y mod 16) * 4 + z div 64) mod 4 = z div (64::nat)"
  using d64[of z] by simp
lemma c2: "y < 256 \<Longrightarrow> (x mod 4) * 16 + y div 16 < (64::nat)"
proof -
  assume "y < 256"
  then have "y div 16 < 16" by (rule d16)
  moreover have "x mod 4 < 4" by simp
  then have "x mod 4 \<le> 3" by linarith
  then have "(x mod 4) * 16 \<le> 48" by linarith
  ultimately show ?thesis by linarith
qed
lemma c3: "z < 256 \<Longrightarrow> (y mod 16) * 4 + z div 64 < (64::nat)"
proof -
  assume "z < 256"
  then have "z div 64 < 4" by (rule d64)
  moreover have "y mod 16 < 16" by simp
  then have "y mod 16 \<le> 15" by linarith
  then have "(y mod 16) * 4 \<le> 60" by linarith
  ultimately show ?thesis by linarith
qed
lemma c4: "(y mod 16) * 4 < (64::nat)" "(x mod 4) * 16 < (64::nat)"
proof -
  have "y mod 16 < 16" by simp
  then have "y mod 16 \<le> 15" by linarith
  then show "(y mod 16) * 4 < (64::nat)" by linarith
  have "x mod 4 < 4" by simp
  then have "x mod 4 \<le> 3" by linarith
  then show "(x mod 4) * 16 < (64::nat)" by linarith
qed

lemma sextetsOf_bound:
  "\<forall>x \<in> set bs. x < 256 \<Longrightarrow> \<forall>s \<in> set (sextetsOf bs). s < 64"
  by (induction bs rule: sextetsOf.induct) (simp_all add: d4 c2 c3 c4)

lemma e1: "y < 256 \<Longrightarrow> x div 4 * 4 + ((x mod 4) * 16 + y div 16) div 16 = (x::nat)"
  by (simp only: b1 div_mult_mod_eq)
lemma e2: "y < 256 \<Longrightarrow> z < 256 \<Longrightarrow>
    (((x mod 4) * 16 + y div 16) mod 16) * 16 + ((y mod 16) * 4 + z div 64) div 4 = (y::nat)"
  by (simp only: b2 b3 div_mult_mod_eq)
lemma e3: "z < 256 \<Longrightarrow> (((y mod 16) * 4 + z div 64) mod 4) * 64 + z mod 64 = (z::nat)"
  by (simp only: b4 div_mult_mod_eq)
lemma e4: "y < 256 \<Longrightarrow>
    (((x mod 4) * 16 + y div 16) mod 16) * 16 + ((y mod 16) * 4) div 4 = (y::nat)"
proof -
  assume y: "y < 256"
  have "((y mod 16) * 4) div 4 = y mod 16" by simp
  then show ?thesis using y by (simp only: b2 div_mult_mod_eq)
qed
lemma e5: "x div 4 * 4 + ((x mod 4) * 16) div 16 = (x::nat)"
proof -
  have "((x mod 4) * 16) div 16 = x mod 4" by simp
  then show ?thesis by (simp only: div_mult_mod_eq)
qed

lemma bytesOf_sextetsOf:
  "\<forall>x \<in> set bs. x < 256 \<Longrightarrow> bytesOf (sextetsOf bs) = bs"
proof (induction bs rule: sextetsOf.induct)
  case (1 x y z rest)
  then have b: "x < 256" "y < 256" "z < 256" and r: "bytesOf (sextetsOf rest) = rest" by simp_all
  show ?case
    by (simp only: sextetsOf.simps bytesOf.simps append_Cons append_Nil r e1[OF b(2)]
        e2[OF b(2,3)] e3[OF b(3)])
next
  case (2 x y)
  then have b: "x < 256" "y < 256" by simp_all
  show ?case
    by (simp only: sextetsOf.simps bytesOf.simps e1[OF b(2)] e4[OF b(2)])
next
  case (3 x)
  show ?case by (simp only: sextetsOf.simps bytesOf.simps e5)
next
  case 4
  show ?case by simp
qed

lemma sextetsOf_length:
  "(length (sextetsOf bs) + (3 - length bs mod 3) mod 3) mod 4 = 0"
proof (induction bs rule: sextetsOf.induct)
  case (1 x y z rest)
  have m: "length (x # y # z # rest) mod 3 = length rest mod 3"
    by (simp add: mod_Suc) linarith
  have l: "length (sextetsOf (x # y # z # rest)) = 4 + length (sextetsOf rest)" by simp
  show ?case using 1 unfolding m l by (simp only: add.assoc mod_add_self1)
qed simp_all

lemma sextetsOf_nonempty: "bs \<noteq> [] \<Longrightarrow> sextetsOf bs \<noteq> []"
  by (induction bs rule: sextetsOf.induct) simp_all

lemma sextetsOf_length_ne1: "length (sextetsOf bs) mod 4 \<noteq> 1"
  by (induction bs rule: sextetsOf.induct) simp_all

lemma pad_cases: "(3 - n mod 3) mod 3 = (0::nat) \<or> (3 - n mod 3) mod 3 = 1 \<or> (3 - n mod 3) mod 3 = 2"
proof -
  have "(3 - n mod 3) mod 3 < 3" by simp
  then show ?thesis by linarith
qed

lemma pad_nonzero: "(3 - length s mod 3) mod 3 \<noteq> 0 \<Longrightarrow> s \<noteq> []"
  by auto

lemma rev_head_in_set: "rev xs = p # t \<Longrightarrow> p \<in> set xs"
  by (metis list.set_intros(1) set_rev)

lemma stripPadding_unfold:
  "length d mod 4 = 0 \<Longrightarrow>
   stripPadding d =
     (case rev d of
        p # q # t \<Rightarrow> if p = CHR ''='' \<and> q = CHR ''='' then rev t
                     else if p = CHR ''='' then rev (q # t) else d
      | _ \<Rightarrow> d)"
  by (simp only: stripPadding_def if_True simp_thms)

lemma stripPadding_plain:
  assumes "length P mod 4 = 0" "\<forall>c \<in> set P. c \<noteq> CHR ''=''"
  shows "stripPadding P = P"
proof (cases "rev P")
  case Nil
  show ?thesis by (simp only: stripPadding_unfold[OF assms(1)] Nil list.case)
next
  case (Cons p t)
  have p: "p \<noteq> CHR ''=''" by (rule bspec[OF assms(2) rev_head_in_set[OF Cons]])
  show ?thesis
  proof (cases t)
    case Nil
    show ?thesis by (simp only: stripPadding_unfold[OF assms(1)] Cons Nil list.case)
  next
    case (Cons q t')
    show ?thesis
      by (simp only: stripPadding_unfold[OF assms(1)] \<open>rev P = p # t\<close> Cons list.case p
          simp_thms if_False)
  qed
qed

lemma stripPadding_one:
  assumes "length (P @ [CHR ''='']) mod 4 = 0" "\<forall>c \<in> set P. c \<noteq> CHR ''=''" "P \<noteq> []"
  shows "stripPadding (P @ [CHR ''='']) = P"
proof -
  from assms(3) obtain q t where c: "rev P = q # t" by (cases "rev P") auto
  have q: "q \<noteq> CHR ''=''" by (rule bspec[OF assms(2) rev_head_in_set[OF c]])
  have "rev (rev P) = rev (q # t)" by (simp only: c)
  then have P: "rev (q # t) = P" by (simp only: rev_rev_ident)
  have r: "rev (P @ [CHR ''='']) = CHR ''='' # q # t" by (simp only: rev_append rev.simps append_Nil append_Cons c)
  show ?thesis
    by (simp only: stripPadding_unfold[OF assms(1)] r list.case q simp_thms if_False if_True P)
qed

lemma stripPadding_two:
  assumes "length (P @ [CHR ''='', CHR ''='']) mod 4 = 0"
  shows "stripPadding (P @ [CHR ''='', CHR ''='']) = P"
proof -
  have r: "rev (P @ [CHR ''='', CHR ''='']) = CHR ''='' # CHR ''='' # rev P" by simp
  show ?thesis
    by (simp only: stripPadding_unfold[OF assms] r list.case simp_thms if_True rev_rev_ident)
qed

lemma btoa_payload_plain:
  "\<forall>c \<in> set (map base64Char (sextetsOf (map of_char s))).
      c \<noteq> CHR ''='' \<and> \<not> asciiWhitespace c"
proof -
  have bytes: "\<forall>x \<in> set (map of_char s :: nat list). x < 256" by simp
  note sb = sextetsOf_bound[OF bytes]
  show ?thesis
  proof
    fix c assume "c \<in> set (map base64Char (sextetsOf (map of_char s)))"
    then obtain n where n: "n \<in> set (sextetsOf (map of_char s))" and c: "c = base64Char n"
      by (auto simp only: set_map image_iff)
    from sb n have "n < 64" by (rule bspec)
    then show "c \<noteq> CHR ''='' \<and> \<not> asciiWhitespace c"
      unfolding c by (rule base64Char_plain)
  qed
qed

lemma stripPadding_btoa:
  "stripPadding (btoa s) = map base64Char (sextetsOf (map of_char s))"
proof -
  let ?bs = "map of_char s :: nat list"
  let ?P = "map base64Char (sextetsOf ?bs)"
  let ?k = "(3 - length s mod 3) mod 3"
  have b: "btoa s = ?P @ replicate ?k (CHR ''='')" by (simp only: btoa_def)
  have len: "length (?P @ replicate ?k (CHR ''='')) mod 4 = 0"
    using sextetsOf_length[of ?bs] by (simp only: length_append length_map length_replicate)
  have plain: "\<forall>c \<in> set ?P. c \<noteq> CHR ''=''"
  proof
    fix c assume "c \<in> set ?P"
    with btoa_payload_plain[of s] have "c \<noteq> CHR ''='' \<and> \<not> asciiWhitespace c" by (rule bspec)
    then show "c \<noteq> CHR ''=''" by (rule conjunct1)
  qed
  from pad_cases[of "length s"] show ?thesis
  proof (elim disjE)
    assume k0: "?k = 0"
    then have e: "?P @ replicate ?k (CHR ''='') = ?P" by (simp only: replicate_0 append_Nil2)
    show ?thesis
      unfolding b e using len[unfolded e] plain by (rule stripPadding_plain)
  next
    assume k1: "?k = 1"
    then have "s \<noteq> []" using pad_nonzero[of s] by (simp only: One_nat_def) simp
    then have ne: "?P \<noteq> []" using sextetsOf_nonempty[of ?bs] by (simp only: map_is_Nil_conv simp_thms)
    have e: "?P @ replicate ?k (CHR ''='') = ?P @ [CHR ''='']"
      by (simp only: k1 One_nat_def replicate_Suc replicate_0)
    show ?thesis
      unfolding b e using len[unfolded e] plain ne by (rule stripPadding_one)
  next
    assume k2: "?k = 2"
    have e: "?P @ replicate ?k (CHR ''='') = ?P @ [CHR ''='', CHR ''='']"
      by (simp only: k2 numeral_2_eq_2 replicate_Suc replicate_0)
    show ?thesis
      unfolding b e using len[unfolded e] by (rule stripPadding_two)
  qed
qed

lemma btoa_no_whitespace: "filter (\<lambda>c. \<not> asciiWhitespace c) (btoa s) = btoa s"
proof -
  have eq: "\<not> asciiWhitespace (CHR ''='')" by (simp add: asciiWhitespace_def)
  have "\<forall>c \<in> set (btoa s). \<not> asciiWhitespace c"
  proof
    fix c assume "c \<in> set (btoa s)"
    then have "c \<in> set (map base64Char (sextetsOf (map of_char s))) \<or> c = CHR ''=''"
      by (simp only: btoa_def set_append Un_iff set_replicate_conv_if) (simp split: if_splits)
    then show "\<not> asciiWhitespace c"
    proof
      assume "c \<in> set (map base64Char (sextetsOf (map of_char s)))"
      with btoa_payload_plain[of s] have "c \<noteq> CHR ''='' \<and> \<not> asciiWhitespace c" by (rule bspec)
      then show ?thesis by (rule conjunct2)
    next
      assume e: "c = CHR ''=''"
      show ?thesis unfolding e by (rule eq)
    qed
  qed
  then show ?thesis by (simp only: filter_id_conv simp_thms)
qed

lemma atob_btoa: "atob (btoa s) = Inr s"
proof -
  let ?bs = "map of_char s :: nat list"
  let ?sx = "sextetsOf ?bs"
  let ?P = "map base64Char ?sx"
  have bytes: "\<forall>x \<in> set ?bs. x < 256" by simp
  note sb = sextetsOf_bound[OF bytes]
  have d: "stripPadding (filter (\<lambda>c. \<not> asciiWhitespace c) (btoa s)) = ?P"
    by (simp only: btoa_no_whitespace stripPadding_btoa)
  have i: "indexOf (base64Char n) base64Alphabet = Some n" if "n \<in> set ?sx" for n
    by (rule base64Char_index[OF bspec[OF sb that]])
  have idx: "map (\<lambda>c. the (indexOf c base64Alphabet)) ?P = ?sx"
    by (simp only: map_map o_def) (rule map_idI, simp only: i option.sel)
  have ok: "\<not> (\<exists>c \<in> set ?P. indexOf c base64Alphabet = None)"
  proof
    assume "\<exists>c \<in> set ?P. indexOf c base64Alphabet = None"
    then obtain c where "c \<in> set ?P" and n: "indexOf c base64Alphabet = None" by (rule bexE)
    then obtain m where "m \<in> set ?sx" "c = base64Char m" by (auto simp only: set_map image_iff)
    with i[of m] n show False by (simp only:) simp
  qed
  have l: "(length ?P mod 4 = 1) = False"
    using sextetsOf_length_ne1[of ?bs] by (simp only: length_map simp_thms)
  have ok2: "(\<exists>c \<in> set ?P. indexOf c base64Alphabet = None) = False"
    using ok by (simp only: simp_thms)
  have bs: "bytesOf ?sx = ?bs" by (rule bytesOf_sextetsOf[OF bytes])
  have chars: "map char_of ?bs = s" by (simp add: map_idI)
  show ?thesis
    by (simp only: atob_def Let_def d l ok2 simp_thms if_False idx bs chars)
qed

lemma startsWith_append [simp]: "startsWith (p @ s) p"
  by (simp add: startsWith_def)

text \<open>
  Claim C10, amended.  Without an authenticated session, for every value other than \<open>null\<close>
  that the platform's parser reads back from its JSON text (text of 8-bit characters),
  \<open>encrypt\<close> returns the text \<open>fallback:\<close> followed by the base64 encoding of the JSON
  text, \<open>detectDataFormat\<close> classifies that text as the fallback format, and \<open>decrypt\<close>
  returns the value.
\<close>

theorem decrypt_encrypt_fallback:
  assumes "currentSession env = None"
      and "v \<noteq> JNull"
      and "JSON_parse pf (JSON_stringify v) = Inr v"
  shows "encrypt env v userId = Inr (''fallback:'' @ btoa (JSON_stringify v))
         \<and> detectDataFormat pf (''fallback:'' @ btoa (JSON_stringify v)) = Fallback
         \<and> decrypt pf env (''fallback:'' @ btoa (JSON_stringify v)) userId = Inr v"
proof -
  let ?s = "''fallback:'' @ btoa (JSON_stringify v)"
  have e: "encrypt env v userId = Inr ?s"
    using assms(1,2) by (simp add: encrypt_def isAuthenticated_def fallbackEncoding_def)
  have ne: "?s \<noteq> []" by simp
  have f: "detectDataFormat pf ?s = Fallback"
    unfolding detectDataFormat_def using ne startsWith_append[of "''fallback:''"]
    by (simp only: if_False if_True)
  have d9: "drop 9 ?s = btoa (JSON_stringify v)" by simp
  have t: "decrypt_try pf env ?s userId = Inr v"
    by (simp only: decrypt_try_def f DataFormat.case d9 atob_btoa sum.case assms(3))
  have d: "decrypt pf env ?s userId = Inr v"
    unfolding decrypt_def using ne by (simp only: if_False t sum.case)
  from e f d show ?thesis by (intro conjI)
qed

section \<open>Runs on the example states\<close>

lemmas storage_defs =
  emit_def storedValue_def storageGet_def storageSet_def storageRemove_def

lemmas table_defs =
  column_def rowMatches_def selectRows_def assign_def updateRows_def insertDefaults_def
  conflictValues_def upsertRows_def decryptData_def multipleRowsError_def
  getUserProfileData_def readByDate_def getUserDataFromTable_def upsertRequest_def
  insertRequest_def storedPreferences_def setFavorites_def profileUpsert_def
  setUserProfileData_def hasId_def markReplaced_def replaceRows_def hasElements_def
  setUserDataInTable_def unawaitedPromise_def notAFunctionError_def nullReadError_def

lemmas remote_defs =
  invalidUserId_def trim_def isWhitespace_def getTableName_def tableMap_def
  mismatchMessage_def logDataAccess_try_def logDataAccess_def remoteFetch_def
  remoteStore_def remoteSoftDelete_def updateSyncStatus_def supabaseGet_try_def
  supabaseGet_def supabaseSet_try_def supabaseSet_def supabaseRemove_try_def
  supabaseRemove_def table_defs

lemmas coordinator_defs =
  criticalAuthError_def getData_try_def getData_def sameValueZero_def getDataSafe_def
  queueForSync_def cacheAndQueue_def setData_def removeData_def startsWith_def

lemmas sync_defs =
  epochISO_def notifySync_def syncTableMap_def syncTableName_def timeDiff_def
  detectConflict_def dateGreaterEq_def winningSide_def timestampKey_def
  resolveConflict_def getRemoteData_def getRemoteTimestamp_def pullData_def pushData_def
  readBothSides_def syncDataType_def markProcessed_def recordFailure_def thrownText_def
  replayCall_def replayChange_def pendingChanges_def processOfflineQueue_def
  performSync_begin_def resolveConflictManually_try_def resolveConflictManually_def
  map_delete_def

lemmas example_defs =
  defaultSettings_def baseWorld_def noteA_def noteB_def examplePlatform_def
  unauthenticatedEnv_def developmentEnv_def profileRow_def profileSynced_def
  pointsConflict_def conflictWorld_def rejectingWorld_def
  staleWorld_def settledWorld_def pendingWorld_def suspendedWorld_def resolvedWorld_def
  change1_def change2_def queueWorld_def unrecordedWorld_def
  intruderWorld_def unreachableWorld_def skillsWorld_def

lemmas json_defs =
  quoteString_def escapeChar_def showInt_def digitChar_def hexDigit_def

lemmas all_defs =
  storage_defs remote_defs coordinator_defs sync_defs example_defs json_defs

lemma showNat_examples [simp]: "showNat 150 = ''150''" "showNat 120 = ''120''"
  by code_simp+

theorem setData_remote_then_local_witness:
  "hdsOnline baseWorld \<and> sessionUser baseWorld = Inr (Some ''user-1'')
   \<and> remoteFault baseWorld Store ''points'' = None \<and> localFault baseWorld ''points'' = None
   \<and> fst (remoteStore ''points'' (JNum 150) ''user-1'' baseWorld) = Inr ()
   \<and> fst (setData ''points'' (JNum 150) ''user-1'' baseWorld) = Inr ()
   \<and> syncQueue (snd (setData ''points'' (JNum 150) ''user-1'' baseWorld)) = []
   \<and> localStorage (snd (setData ''points'' (JNum 150) ''user-1'' baseWorld)) ''points'' =
       Some (JNum 150)
   \<and> trace (snd (setData ''points'' (JNum 150) ''user-1'' baseWorld)) =
       [RemoteSet ''points'' (JNum 150) ''user-1'',
        AuditLog ''DATA_MODIFY'' ''user_profiles'' ''user-1'',
        SyncStatusUpsert ''user_profiles'' ''user-1'' ''completed'',
        LocalSet ''points'' (JNum 150)]"
proof -
  have h0: "remoteFault baseWorld Store ''points'' = None"
    by (simp add: example_defs)
  have h: "hdsOnline baseWorld \<and> sessionUser baseWorld = Inr (Some ''user-1'')
     \<and> fst (remoteStore ''points'' (JNum 150) ''user-1'' baseWorld) = Inr ()
     \<and> localFault baseWorld ''points'' = None"
    by (simp add: example_defs remote_defs)
  from setData_remote_then_local[of baseWorld "''points''" "JNum 150" "''user-1''"] h
  have "setData ''points'' (JNum 150) ''user-1'' baseWorld =
        (Inr (), baseWorld\<lparr>remoteDb := remoteDb (snd (remoteStore ''points'' (JNum 150) ''user-1'' baseWorld)),
                   syncStatusRows :=
                     syncStatusRows (updateSyncStatus (getTableName ''points'') ''user-1'' ''completed'' baseWorld),
                   localStorage := (localStorage baseWorld)(''points'' \<mapsto> JNum 150),
                   trace := trace baseWorld @
                     [RemoteSet ''points'' (JNum 150) ''user-1'',
                      AuditLog ''DATA_MODIFY'' (getTableName ''points'') ''user-1'',
                      SyncStatusUpsert (getTableName ''points'') ''user-1'' ''completed'',
                      LocalSet ''points'' (JNum 150)]\<rparr>)"
    by blast
  then show ?thesis using h h0 by (simp add: example_defs getTableName_def tableMap_def)
qed

theorem getData_identity_violation_witness:
  "fst (getData ''goals'' ''user-1'' intruderWorld) = Inl (JsError mismatchMessage)
   \<and> trace (snd (getData ''goals'' ''user-1'' intruderWorld)) = [RemoteGet ''goals'' ''user-1'']
   \<and> fst (getData ''goals'' ''user-1'' unreachableWorld) = Inr noteA
   \<and> fst (getData ''goals'' ''   '' baseWorld) =
       Inl (JsError ''Invalid userId provided for getData:    '')"
proof -
  have h1: "\<not> invalidUserId ''user-1'' \<and> hdsOnline intruderWorld
      \<and> sessionUser intruderWorld = Inr (Some ''user-2'') \<and> Some ''user-2'' \<noteq> Some ''user-1''"
    by (simp add: example_defs invalidUserId_def trim_def isWhitespace_def)
  have s: "supabaseGet ''goals'' ''user-1'' unreachableWorld =
      (Inl (NonError ''fetch failed''),
       unreachableWorld\<lparr>trace := [RemoteGet ''goals'' ''user-1'',
          AuditLog ''DATA_ACCESS'' ''user_goals'' ''user-1'',
          AuditLog ''DATA_ACCESS_ERROR'' ''user_goals'' ''user-1'']\<rparr>)"
    by (simp add: storage_defs remote_defs example_defs)
  have h3: "\<not> invalidUserId ''user-1'' \<and> hdsOnline unreachableWorld"
    by (simp add: example_defs invalidUserId_def trim_def isWhitespace_def)
  have h4: "invalidUserId ''   ''"
    by (simp add: invalidUserId_def trim_def isWhitespace_def)
  note t1 = getData_identity_violation[of "''user-1''" "''goals''" intruderWorld "Some ''user-2''"]
  note t3 = getData_identity_violation[of "''user-1''" "''goals''" unreachableWorld _
      "NonError ''fetch failed''", THEN conjunct2, THEN conjunct2, rule_format, OF conjI[OF conjunct1[OF h3] conjI[OF conjunct2[OF h3] s]]]
  note t4 = getData_identity_violation[of "''   ''" "''goals''" baseWorld, THEN conjunct1, rule_format, OF h4]
  have a: "getData ''goals'' ''user-1'' intruderWorld =
      (Inl (JsError mismatchMessage), emit (RemoteGet ''goals'' ''user-1'') intruderWorld)"
    using t1 h1 by blast
  have b: "fst (getData ''goals'' ''user-1'' unreachableWorld) = Inr noteA"
    using t3 by (simp add: criticalAuthError_def storedValue_def example_defs)
  show ?thesis using a b t4 by (simp add: emit_def example_defs)
qed


theorem detectConflict_classification_witness:
  "JSON_stringify noteA \<noteq> JSON_stringify noteB
   \<and> map_option conflictType
        (detectConflict examplePlatform ''goals'' noteA noteB
           ''2025-01-15T10:00:40.000Z'' ''2025-01-15T10:00:00.000Z'') = Some ConcurrentEdit
   \<and> map_option conflictType
        (detectConflict examplePlatform ''goals'' noteA noteB
           ''2025-01-15T09:00:00.000Z'' ''2025-01-15T10:00:00.000Z'') = Some UpdateConflict"
proof -
  have h: "JSON_stringify noteA \<noteq> JSON_stringify noteB"
    by (simp add: example_defs json_defs)
  from detectConflict_classification[OF h, of examplePlatform "''goals''"
      "''2025-01-15T10:00:40.000Z''" "''2025-01-15T10:00:00.000Z''"]
  have a: "map_option conflictType
        (detectConflict examplePlatform ''goals'' noteA noteB
           ''2025-01-15T10:00:40.000Z'' ''2025-01-15T10:00:00.000Z'') = Some ConcurrentEdit"
    by (auto simp: examplePlatform_def)
  from detectConflict_classification[OF h, of examplePlatform "''goals''"
      "''2025-01-15T09:00:00.000Z''" "''2025-01-15T10:00:00.000Z''"]
  have b: "map_option conflictType
        (detectConflict examplePlatform ''goals'' noteA noteB
           ''2025-01-15T09:00:00.000Z'' ''2025-01-15T10:00:00.000Z'') = Some UpdateConflict"
    by (auto simp: examplePlatform_def)
  from h a b show ?thesis by simp
qed

text \<open>
  Claim C5.  A conflict on the points is pending from an earlier run.  A sync request is
  accepted, sets the status to \<open>syncing\<close> and is suspended at its first \<open>await\<close>; a second
  request made now is rejected.  While the first request is still suspended, the user
  resolves the pending conflict by hand: \<open>resolveConflictManually\<close> removes the last
  conflict and sets the status to \<open>idle\<close>.  A second sync request made then is accepted,
  although the first one is still in progress.
\<close>

theorem performSync_second_request_accepted:
  "syncOnline pendingWorld
   \<and> fst (performSync_begin pendingWorld) = Inr ()
   \<and> syncStatus suspendedWorld = Syncing
   \<and> fst (performSync_begin suspendedWorld) = Inl (JsError ''Sync already in progress'')
   \<and> fst (resolveConflictManually ''points'' UseLocal None suspendedWorld) = Inr True
   \<and> pendingConflicts resolvedWorld = []
   \<and> syncStatus resolvedWorld = Idle
   \<and> fst (performSync_begin resolvedWorld) = Inr ()
   \<and> syncStatus (snd (performSync_begin resolvedWorld)) = Syncing"
  by (simp add: all_defs Let_def)



theorem getDataSafe_skillsList_witness:
  "fst (getDataSafe ''skillsList'' ''user-1'' (JArr [JStr ''a'', JStr ''b'']) skillsWorld) =
     Inr (JArr [JStr ''a'', JStr ''b'', JStr ''c''])"
proof -
  have g: "getData ''skillsList'' ''user-1'' skillsWorld =
      (Inr (JArr [JStr ''c'', JStr ''a'']), snd (getData ''skillsList'' ''user-1'' skillsWorld))"
    by (simp add: storage_defs remote_defs coordinator_defs example_defs)
  have p: "\<forall>x \<in> set ([JStr ''a'', JStr ''b''] @ [JStr ''c'', JStr ''a'']). isPrimitive x"
    by simp
  from getDataSafe_skillsList[OF g p]
  obtain U where "getDataSafe ''skillsList'' ''user-1'' (JArr [JStr ''a'', JStr ''b'']) skillsWorld
        = (Inr (JArr U), snd (getData ''skillsList'' ''user-1'' skillsWorld))"
    and "U = uniqueInOrder [JStr ''a'', JStr ''b'']
             @ filter (\<lambda>y. y \<notin> set [JStr ''a'', JStr ''b'']) (uniqueInOrder [JStr ''c'', JStr ''a''])"
    by auto
  then show ?thesis by (simp add: sameValueZero_def)
qed

text \<open>
  Both sides hold 150 points, the timestamp of the table is ahead of the one on the
  device: the pass pulls, and the local timestamp entry changes.
\<close>

theorem syncDataType_stale_counterexample:
  "fst (readBothSides ''points'' ''user-1'' staleWorld) =
     (JNum 150, ''2025-01-15T09:00:00.000Z'', JNum 150, ''2025-01-15T10:00:00.000Z'')
   \<and> JSON_stringify (JNum 150) = JSON_stringify (JNum 150)
   \<and> localStorage staleWorld ''points_timestamp'' = Some (JStr ''2025-01-15T09:00:00.000Z'')
   \<and> localStorage (snd (syncDataType examplePlatform ''points'' ''user-1'' staleWorld))
         ''points_timestamp'' = Some (JStr ''2025-01-15T10:00:00.000Z'')"
  by (simp add: all_defs Let_def)

theorem syncDataType_equal_is_noop_witness:
  "fst (readBothSides ''points'' ''user-1'' settledWorld) =
     (JNum 150, ''2025-01-15T10:00:00.000Z'', JNum 150, ''2025-01-15T10:00:00.000Z'')
   \<and> fst (syncDataType examplePlatform ''points'' ''user-1'' settledWorld) = Inr (True, None)
   \<and> remoteDb (snd (syncDataType examplePlatform ''points'' ''user-1'' settledWorld)) =
       remoteDb settledWorld
   \<and> syncStatusRows (snd (syncDataType examplePlatform ''points'' ''user-1'' settledWorld)) =
       syncStatusRows settledWorld
   \<and> localStorage (snd (syncDataType examplePlatform ''points'' ''user-1'' settledWorld))
       ''points_timestamp'' = Some (JStr ''2025-01-15T10:00:00.000Z'')
   \<and> localStorage (snd (syncDataType examplePlatform ''points'' ''user-1'' settledWorld))
       ''points'' = Some (JNum 150)"
proof -
  have r: "readBothSides ''points'' ''user-1'' settledWorld =
      ((JNum 150, ''2025-01-15T10:00:00.000Z'', JNum 150, ''2025-01-15T10:00:00.000Z''),
       snd (readBothSides ''points'' ''user-1'' settledWorld))"
    by (simp add: all_defs Let_def)
  have l: "localStorage (snd (readBothSides ''points'' ''user-1'' settledWorld)) ''points'' =
      Some (JNum 150)"
    by (simp add: all_defs Let_def)
  have n: "JNum 150 \<noteq> JNull" by simp
  let ?w3 = "snd (readBothSides ''points'' ''user-1'' settledWorld)"
  from syncDataType_equal_is_noop[OF r n n refl refl, of examplePlatform]
  have s: "syncDataType examplePlatform ''points'' ''user-1'' settledWorld = (Inr (True, None), ?w3)"
    and d: "remoteDb ?w3 = remoteDb settledWorld"
    and y: "syncStatusRows ?w3 = syncStatusRows settledWorld"
    and t: "localStorage ?w3 (timestampKey ''points'') =
            localStorage settledWorld (timestampKey ''points'')"
    by simp_all
  have t': "localStorage ?w3 ''points_timestamp'' = Some (JStr ''2025-01-15T10:00:00.000Z'')"
    using t by (simp add: settledWorld_def timestampKey_def)
  have r': "fst (readBothSides ''points'' ''user-1'' settledWorld) =
     (JNum 150, ''2025-01-15T10:00:00.000Z'', JNum 150, ''2025-01-15T10:00:00.000Z'')"
    using r by (metis fst_conv)
  show ?thesis
    unfolding s fst_conv snd_conv using r' d y t' l by (intro conjI) simp_all
qed

text \<open>Without a session, \<open>encrypt\<close> refuses \<open>null\<close>, a value that JSON can serialise.\<close>

theorem encrypt_null_counterexample:
  "currentSession unauthenticatedEnv = None
   \<and> encrypt unauthenticatedEnv JNull ''user-1'' =
       Inl (JsError ''Cannot encrypt null or undefined data'')"
  by (simp add: unauthenticatedEnv_def encrypt_def)

theorem decrypt_encrypt_fallback_witness:
  "encrypt unauthenticatedEnv noteA ''user-1'' = Inr ''fallback:eyJ0ZXh0IjoiQSJ9''
   \<and> detectDataFormat examplePlatform ''fallback:eyJ0ZXh0IjoiQSJ9'' = Fallback
   \<and> decrypt examplePlatform unauthenticatedEnv ''fallback:eyJ0ZXh0IjoiQSJ9'' ''user-1''
       = Inr noteA"
proof -
  have h: "currentSession unauthenticatedEnv = None" "noteA \<noteq> JNull"
    "JSON_parse examplePlatform (JSON_stringify noteA) = Inr noteA"
    by (simp_all add: unauthenticatedEnv_def noteA_def examplePlatform_def)
  have b: "''fallback:'' @ btoa (JSON_stringify noteA) = ''fallback:eyJ0ZXh0IjoiQSJ9''"
    by (simp add: noteA_def json_defs btoa_def base64Char_def base64Alphabet_def)
  from decrypt_encrypt_fallback[OF h, of "''user-1''"] show ?thesis
    unfolding b .
qed

end
